theory Spec2Isabelle
  imports Complex_Main "HOL-Library.Sublist"
begin

section \<open>Python values, strings and exceptions\<close>

text \<open>
  The client of \<^verbatim>\<open>a2flight_client.py\<close> is embedded with explicit state passing.
  A Python string is the \<^typ>\<open>string\<close> of its UTF-8 bytes (an Isabelle character
  is one byte), so that concatenation and the search for a substring are those of the
  source; byte strings are lists of characters as well. Names that start with an underscore in the
  source (\<^verbatim>\<open>_client\<close>, \<^verbatim>\<open>_connected\<close>, \<^verbatim>\<open>_authenticate\<close>, ...) carry the
  prefix \<open>priv_\<close> here. Calls of the logger write to a file and to the console
  only and are left out.
\<close>

type_synonym bytes = "char list"

text \<open>
  \<^verbatim>\<open>str.lower()\<close>. The ASCII letters A to Z are mapped to a to z. Two code points
  beyond ASCII have a lower case that contains an ASCII letter, and are mapped as Python
  maps them: U+212A KELVIN SIGN (bytes E2 84 AA) to \<open>k\<close>, and U+0130 (bytes C4 B0) to
  \<open>i\<close> followed by U+0307 (bytes CC 87). Every other code point beyond ASCII keeps its
  bytes here; Python maps it to code points beyond ASCII again. The source reads a
  lower-cased text only to search it for ASCII patterns, which cannot tell the two apart.
\<close>

definition lower_char :: "char \<Rightarrow> char" where
  "lower_char c =
     (let n = (of_char c :: nat) in if 65 \<le> n \<and> n \<le> 90 then char_of (n + 32) else c)"

fun lower :: "string \<Rightarrow> string" where
  "lower [] = []"
| "lower (c # s) =
     (if c = CHR 0xE2 \<and> take 2 s = [CHR 0x84, CHR 0xAA] then
        CHR ''k'' # lower (drop 2 s)
      else if c = CHR 0xC4 \<and> take 1 s = [CHR 0xB0] then
        CHR ''i'' # CHR 0xCC # CHR 0x87 # lower (drop 1 s)
      else lower_char c # lower s)"

text \<open>
  \<^verbatim>\<open>s[:n]\<close> counts code points: a byte from 0x80 to 0xBF continues the code point
  before it, any other byte starts one.
\<close>

definition is_continuation :: "char \<Rightarrow> bool" where
  "is_continuation c = (let n = (of_char c :: nat) in 128 \<le> n \<and> n < 192)"

fun take_code_points :: "nat \<Rightarrow> string \<Rightarrow> string" where
  "take_code_points n [] = []"
| "take_code_points n (c # s) =
     (if is_continuation c then c # take_code_points n s
      else (case n of 0 \<Rightarrow> [] | Suc m \<Rightarrow> c # take_code_points m s))"

text \<open>\<^verbatim>\<open>sub in s\<close> on strings: \<open>sub\<close> occurs in \<open>s\<close> as a contiguous block.\<close>

definition py_in :: "string \<Rightarrow> string \<Rightarrow> bool" where
  "py_in sub s = sublist sub s"

text \<open>The apostrophe and the newline of the f-strings.\<close>

definition apos :: string where
  "apos = [CHR 0x27]"

definition nl :: string where
  "nl = [CHR 0x0A]"

text \<open>
  Every exception the client handles is caught by \<^verbatim>\<open>except Exception\<close> and read
  through \<^verbatim>\<open>str(e)\<close> only. An exception is therefore its class, as far as the
  client distinguishes it, and its text: the client's own \<^verbatim>\<open>A2FlightClientError\<close>,
  or any other exception (raised by the transport, by pyarrow or by Python).
\<close>

datatype exn = A2FlightClientError string | OtherError string

fun str :: "exn \<Rightarrow> string" where
  "str (A2FlightClientError m) = m"
| "str (OtherError m) = m"

section \<open>Configuration and the client object\<close>

text \<open>
  Of the settings object the client reads \<^verbatim>\<open>client_name\<close>, \<^verbatim>\<open>api_key\<close> and the
  computed \<^verbatim>\<open>server_location\<close>.
\<close>

record config =
  client_name :: string
  api_key :: string
  server_location :: string

text \<open>The transport handle \<^verbatim>\<open>flight.FlightClient(location)\<close>.\<close>

datatype flight_client = FlightClient string

record client =
  config :: config
  priv_client :: "flight_client option"
  priv_connected :: bool

section \<open>The transport\<close>

text \<open>
  Columnar tables: the columns in order, each a name and its values.
\<close>

datatype pyval = PyNone | PyBool bool | PyInt int | PyFloat real | PyStr string | PyBytes bytes

type_synonym table = "(string \<times> pyval list) list"

text \<open>
  The calls the client makes on the transport, in the order they are made, each with the
  exception it raised, if any. The history is the only state of the outside world: the
  answer of every transport call is a function of the calls made before it.
\<close>

datatype call =
    New_FlightClient string
  | List_actions
  | Authenticate_basic_token string string
  | Do_put string "string list"
  | Do_get string
  | Do_action string bytes
  | Close

type_synonym event = "call \<times> exn option"

type_synonym history = "event list"

text \<open>
  \<^verbatim>\<open>do_put\<close> returns a stream writer, \<^verbatim>\<open>do_get\<close> a stream reader. Of a writer
  the client calls \<^verbatim>\<open>write_table\<close> and \<^verbatim>\<open>close\<close>; of a reader either
  \<^verbatim>\<open>read_all\<close>, or it iterates over the chunks, which may end in an exception.
\<close>

record writer =
  write_table :: "table \<Rightarrow> exn option"
  writer_close :: "exn option"

record reader =
  read_all :: "exn + table"
  chunks :: "table list"
  chunks_error :: "exn option"

text \<open>Failures inside pyarrow and Python whose text the source does not fix.\<close>

datatype lib_failure = KeyError_field string | IndexError_row | FormatError pyval

text \<open>
  Everything outside the client: the Flight transport (the constructor of the handle and
  its methods), the stream codec of pyarrow (\<^verbatim>\<open>pa.ipc.new_stream\<close> with
  \<^verbatim>\<open>write_table\<close>, and \<^verbatim>\<open>pa.ipc.open_stream\<close> with \<^verbatim>\<open>read_all\<close>), the clock
  \<^verbatim>\<open>time.time()\<close>, the texts of library exceptions, and the configuration loader.
  The result stream of \<^verbatim>\<open>do_action\<close> is the list of its bodies; an exception while
  the client iterates over it discards what was read and is the \<open>Inl\<close> case too.
\<close>

record env =
  new_FlightClient :: "history \<Rightarrow> string \<Rightarrow> exn option"
  list_actions :: "history \<Rightarrow> exn option"
  authenticate_basic_token :: "history \<Rightarrow> string \<Rightarrow> string \<Rightarrow> exn option"
  do_put :: "history \<Rightarrow> string \<Rightarrow> string list \<Rightarrow> exn + writer"
  do_get :: "history \<Rightarrow> string \<Rightarrow> exn + reader"
  do_action :: "history \<Rightarrow> string \<Rightarrow> bytes \<Rightarrow> exn + bytes list"
  flight_close :: "history \<Rightarrow> exn option"
  ipc_write :: "table \<Rightarrow> bytes"
  ipc_read :: "bytes \<Rightarrow> exn + table"
  time_time :: "history \<Rightarrow> real"
  lib_error :: "lib_failure \<Rightarrow> string"
  get_flight_client_config :: "exn + config"

definition raised :: "exn + 'a \<Rightarrow> exn option" where
  "raised r = (case r of Inl e \<Rightarrow> Some e | Inr _ \<Rightarrow> None)"

section \<open>Authentication\<close>

text \<open>
  \<^verbatim>\<open>_authenticate\<close>: one call of \<^verbatim>\<open>authenticate_basic_token\<close> on the handle; an
  exception of that call is classified by the substrings of its lower-cased text, in the
  order of the source.
\<close>

definition msg_invalid_api_key :: "config \<Rightarrow> string" where
  "msg_invalid_api_key cfg =
     ''Authentication failed: Invalid API key for client '' @ apos @ client_name cfg @ apos
       @ ''.'' @ nl
     @ ''Verify API key with server administrator.'' @ nl
     @ ''Current API key starts with: '' @ take_code_points 12 (api_key cfg) @ ''...''"

definition msg_ip_not_whitelisted :: "config \<Rightarrow> string" where
  "msg_ip_not_whitelisted cfg =
     ''Authentication failed: IP address not whitelisted for client '' @ apos
       @ client_name cfg @ apos @ ''.'' @ nl
     @ ''Contact server administrator to whitelist your IP address.'' @ nl
     @ ''Check server logs for your detected IP address.''"

definition msg_client_disabled :: "config \<Rightarrow> string" where
  "msg_client_disabled cfg =
     ''Authentication failed: Client '' @ apos @ client_name cfg @ apos @ '' is disabled.''
       @ nl
     @ ''Contact server administrator to enable your client.''"

definition msg_unauthenticated :: "config \<Rightarrow> exn \<Rightarrow> string" where
  "msg_unauthenticated cfg e =
     ''Authentication failed for client '' @ apos @ client_name cfg @ apos @ ''.'' @ nl
     @ ''Possible reasons:'' @ nl
     @ ''  - Invalid API key'' @ nl
     @ ''  - IP address not whitelisted'' @ nl
     @ ''  - Client disabled on server'' @ nl
     @ ''Original error: '' @ str e"

definition msg_auth_other :: "exn \<Rightarrow> string" where
  "msg_auth_other e = ''Authentication failed: '' @ str e"

definition auth_error :: "config \<Rightarrow> exn \<Rightarrow> exn" where
  "auth_error cfg e =
     (let error_str = lower (str e) in
      if py_in ''invalid api key'' error_str then
        A2FlightClientError (msg_invalid_api_key cfg)
      else if py_in ''ip not whitelisted'' error_str \<or> py_in ''access denied'' error_str then
        A2FlightClientError (msg_ip_not_whitelisted cfg)
      else if py_in ''client disabled'' error_str then
        A2FlightClientError (msg_client_disabled cfg)
      else if py_in ''unauthenticated'' error_str then
        A2FlightClientError (msg_unauthenticated cfg e)
      else A2FlightClientError (msg_auth_other e))"

text \<open>
  The method call \<^verbatim>\<open>self._client.authenticate_basic_token(...)\<close>. Without a handle
  (\<^verbatim>\<open>_client\<close> is \<^verbatim>\<open>None\<close>) the attribute lookup raises \<^verbatim>\<open>AttributeError\<close> and the
  transport is not reached.
\<close>

definition none_attribute_error :: "string \<Rightarrow> exn" where
  "none_attribute_error attr =
     OtherError (apos @ ''NoneType'' @ apos @ '' object has no attribute '' @ apos @ attr
                 @ apos)"

definition client_authenticate_basic_token ::
  "env \<Rightarrow> client \<Rightarrow> history \<Rightarrow> exn option \<times> history" where
  "client_authenticate_basic_token E c h =
     (case priv_client c of
        None \<Rightarrow> (Some (none_attribute_error ''authenticate_basic_token''), h)
      | Some fc \<Rightarrow>
          (let r = authenticate_basic_token E h (client_name (config c)) (api_key (config c))
           in (r, h @ [(Authenticate_basic_token (client_name (config c))
                          (api_key (config c)), r)])))"

definition priv_authenticate :: "env \<Rightarrow> client \<Rightarrow> history \<Rightarrow> (exn + unit) \<times> history" where
  "priv_authenticate E c h =
     (case client_authenticate_basic_token E c h of
        (None, h') \<Rightarrow> (Inr (), h')
      | (Some e, h') \<Rightarrow> (Inl (auth_error (config c) e), h'))"

section \<open>Connecting\<close>

text \<open>\<^verbatim>\<open>A2FlightClient.__init__\<close> with a configuration object.\<close>

definition A2FlightClient :: "config \<Rightarrow> client" where
  "A2FlightClient cfg = \<lparr>config = cfg, priv_client = None, priv_connected = False\<rparr>"

definition is_connected :: "client \<Rightarrow> bool" where
  "is_connected c = (priv_connected c \<and> priv_client c \<noteq> None)"

definition has_credential :: "config \<Rightarrow> bool" where
  "has_credential cfg = (api_key cfg \<noteq> [] \<and> api_key cfg \<noteq> ''<to be entered>'')"

definition auth_class :: "exn \<Rightarrow> bool" where
  "auth_class e =
     (py_in ''unauthenticated'' (lower (str e)) \<or> py_in ''unauthorized'' (lower (str e)))"

definition auth_disabled_class :: "exn \<Rightarrow> bool" where
  "auth_disabled_class e =
     (py_in ''unimplemented'' (lower (str e)) \<and> py_in ''authentication'' (lower (str e)))"

text \<open>
  The body of the \<^verbatim>\<open>try\<close> of \<^verbatim>\<open>connect\<close>: the handle is created and stored, the
  probe \<^verbatim>\<open>list_actions\<close> is made when a credential is configured, and the flag is set
  at the end. An exception leaves the body at the point where it is raised.
\<close>

definition connect_try :: "env \<Rightarrow> client \<Rightarrow> history \<Rightarrow> (exn + bool) \<times> client \<times> history" where
  "connect_try E c h =
     (let loc = server_location (config c);
          r0 = new_FlightClient E h loc;
          h0 = h @ [(New_FlightClient loc, r0)]
      in case r0 of
           Some e \<Rightarrow> (Inl e, c, h0)
         | None \<Rightarrow>
             (let c1 = c\<lparr>priv_client := Some (FlightClient loc)\<rparr> in
              if has_credential (config c) then
                (let r1 = list_actions E h0;
                     h1 = h0 @ [(List_actions, r1)]
                 in case r1 of
                      None \<Rightarrow> (Inr True, c1\<lparr>priv_connected := True\<rparr>, h1)
                    | Some e \<Rightarrow>
                        if auth_class e then
                          (case priv_authenticate E c1 h1 of
                             (Inl e', h2) \<Rightarrow> (Inl e', c1, h2)
                           | (Inr u, h2) \<Rightarrow> (Inr True, c1\<lparr>priv_connected := True\<rparr>, h2))
                        else if auth_disabled_class e then
                          (Inr True, c1\<lparr>priv_connected := True\<rparr>, h1)
                        else (Inl e, c1, h1))
              else (Inr True, c1\<lparr>priv_connected := True\<rparr>, h0)))"

text \<open>The outer \<^verbatim>\<open>except Exception\<close> of \<^verbatim>\<open>connect\<close>.\<close>

definition connect_error :: "config \<Rightarrow> exn \<Rightarrow> exn" where
  "connect_error cfg e =
     (let error_str = lower (str e) in
      if py_in ''unavailable'' error_str \<or> py_in ''failed to connect'' error_str
         \<or> py_in ''connection refused'' error_str
      then A2FlightClientError (''Arrow Flight server is not running at '' @ server_location cfg)
      else A2FlightClientError (''Connection failed: '' @ str e))"

definition connect :: "env \<Rightarrow> client \<Rightarrow> history \<Rightarrow> (exn + bool) \<times> client \<times> history" where
  "connect E c h =
     (case connect_try E c h of
        (Inl e, c', h') \<Rightarrow> (Inl (connect_error (config c) e), c', h')
      | (Inr b, c', h') \<Rightarrow> (Inr b, c', h'))"

definition priv_ensure_connected :: "client \<Rightarrow> exn option" where
  "priv_ensure_connected c =
     (if \<not> priv_connected c \<or> priv_client c = None
      then Some (A2FlightClientError ''Not connected. Call connect() first.'')
      else None)"

text \<open>\<^verbatim>\<open>close\<close>: an exception of the handle's \<^verbatim>\<open>close\<close> is logged and dropped.\<close>

definition close :: "env \<Rightarrow> client \<Rightarrow> history \<Rightarrow> client \<times> history" where
  "close E c h =
     (case priv_client c of
        None \<Rightarrow> (c, h)
      | Some fc \<Rightarrow> (c\<lparr>priv_client := None, priv_connected := False\<rparr>,
                    h @ [(Close, flight_close E h)]))"

section \<open>Tables and result dictionaries\<close>

text \<open>
  \<^verbatim>\<open>table.schema\<close> is read through its column names, \<^verbatim>\<open>table.num_rows\<close> is the
  length of the columns. \<^verbatim>\<open>table[key]\<close> raises \<^verbatim>\<open>KeyError\<close> unless exactly one
  column has the name; \<^verbatim>\<open>column[0]\<close> raises \<^verbatim>\<open>IndexError\<close> on an empty column.
\<close>

definition schema_names :: "table \<Rightarrow> string list" where
  "schema_names t = map fst t"

definition num_rows :: "table \<Rightarrow> nat" where
  "num_rows t = (case t of [] \<Rightarrow> 0 | (n, vs) # rest \<Rightarrow> length vs)"

definition getitem :: "env \<Rightarrow> table \<Rightarrow> string \<Rightarrow> exn + pyval list" where
  "getitem E t key =
     (case filter (\<lambda>col. fst col = key) t of
        [col] \<Rightarrow> Inr (snd col)
      | _ \<Rightarrow> Inl (OtherError (lib_error E (KeyError_field key))))"

definition row0 :: "env \<Rightarrow> table \<Rightarrow> string \<Rightarrow> exn + pyval" where
  "row0 E t key =
     (case getitem E t key of
        Inl e \<Rightarrow> Inl e
      | Inr [] \<Rightarrow> Inl (OtherError (lib_error E IndexError_row))
      | Inr (v # vs) \<Rightarrow> Inr v)"

text \<open>
  The format specification \<^verbatim>\<open>:,\<close> of the log lines: numbers are formatted, any other
  value raises.
\<close>

definition format_thousands :: "env \<Rightarrow> pyval \<Rightarrow> exn option" where
  "format_thousands E v =
     (case v of
        PyInt i \<Rightarrow> None
      | PyBool b \<Rightarrow> None
      | PyFloat x \<Rightarrow> None
      | _ \<Rightarrow> Some (OtherError (lib_error E (FormatError v))))"

text \<open>A result dictionary, in the order of the dictionary display.\<close>

type_synonym pydict = "(string \<times> pyval) list"

section \<open>INSERT and SELECT\<close>

text \<open>
  Each operation checks the connection before its \<^verbatim>\<open>try\<close>, so the state error is
  raised as it is; every exception inside the \<^verbatim>\<open>try\<close> is wrapped. The argument
  \<^verbatim>\<open>params\<close> of \<^verbatim>\<open>select\<close> is not read by the source and is left out.
\<close>

definition insert_error :: "config \<Rightarrow> exn \<Rightarrow> exn" where
  "insert_error cfg e =
     (let error_str = lower (str e) in
      if py_in ''unavailable'' error_str \<or> py_in ''failed to connect'' error_str
      then A2FlightClientError (''Arrow Flight server is not running at '' @ server_location cfg)
      else A2FlightClientError (''INSERT failed: '' @ str e))"

definition insert_op ::
  "env \<Rightarrow> client \<Rightarrow> history \<Rightarrow> table \<Rightarrow> string \<Rightarrow> (exn + pydict) \<times> history" where
  "insert_op E c h arrow_table table_name =
     (case priv_ensure_connected c of
        Some e \<Rightarrow> (Inl e, h)
      | None \<Rightarrow>
          (let start_time = time_time E h;
               r = do_put E h table_name (schema_names arrow_table);
               h1 = h @ [(Do_put table_name (schema_names arrow_table), raised r)]
           in case r of
                Inl e \<Rightarrow> (Inl (insert_error (config c) e), h1)
              | Inr w \<Rightarrow>
                  (case write_table w arrow_table of
                     Some e \<Rightarrow> (Inl (insert_error (config c) e), h1)
                   | None \<Rightarrow>
                       (case writer_close w of
                          Some e \<Rightarrow> (Inl (insert_error (config c) e), h1)
                        | None \<Rightarrow>
                            (Inr [(''success'', PyBool True),
                                  (''rows_written'', PyInt (int (num_rows arrow_table))),
                                  (''method_used'', PyStr ''flight''),
                                  (''execution_time_ms'',
                                     PyFloat ((time_time E h1 - start_time) * 1000))],
                             h1)))))"

definition select ::
  "env \<Rightarrow> client \<Rightarrow> history \<Rightarrow> string \<Rightarrow> (exn + table) \<times> history" where
  "select E c h query =
     (case priv_ensure_connected c of
        Some e \<Rightarrow> (Inl e, h)
      | None \<Rightarrow>
          (let r = do_get E h query;
               h1 = h @ [(Do_get query, raised r)]
           in case r of
                Inl e \<Rightarrow> (Inl (A2FlightClientError (''SELECT failed: '' @ str e)), h1)
              | Inr rd \<Rightarrow>
                  (case read_all rd of
                     Inl e \<Rightarrow> (Inl (A2FlightClientError (''SELECT failed: '' @ str e)), h1)
                   | Inr result_table \<Rightarrow> (Inr result_table, h1))))"

text \<open>
  \<^verbatim>\<open>select_streaming\<close> is a generator. The model is the generator consumed to its end:
  the chunks it yields, the exception that ends it, if any, and the history.
\<close>

definition select_streaming ::
  "env \<Rightarrow> client \<Rightarrow> history \<Rightarrow> string \<Rightarrow> table list \<times> exn option \<times> history" where
  "select_streaming E c h query =
     (case priv_ensure_connected c of
        Some e \<Rightarrow> ([], Some e, h)
      | None \<Rightarrow>
          (let r = do_get E h query;
               h1 = h @ [(Do_get query, raised r)]
           in case r of
                Inl e \<Rightarrow>
                  ([], Some (A2FlightClientError (''SELECT streaming failed: '' @ str e)), h1)
              | Inr rd \<Rightarrow>
                  (chunks rd,
                   (case chunks_error rd of
                      None \<Rightarrow> None
                    | Some e \<Rightarrow>
                        Some (A2FlightClientError (''SELECT streaming failed: '' @ str e))),
                   h1)))"

section \<open>UPDATE and DELETE\<close>

text \<open>
  The caller's table is written with the stream codec; the envelope
  \<^verbatim>\<open>pa.table({'table_name': [table_name], 'data': [data_bytes]})\<close> is written the same way
  and is the body of the action.
\<close>

definition metadata_table :: "env \<Rightarrow> table \<Rightarrow> string \<Rightarrow> table" where
  "metadata_table E arrow_table table_name =
     [(''table_name'', [PyStr table_name]), (''data'', [PyBytes (ipc_write E arrow_table)])]"

definition action_body :: "env \<Rightarrow> table \<Rightarrow> string \<Rightarrow> bytes" where
  "action_body E arrow_table table_name = ipc_write E (metadata_table E arrow_table table_name)"

text \<open>The dictionary built from the response table, then the log line that formats it.\<close>

definition extract_result :: "env \<Rightarrow> real \<Rightarrow> table \<Rightarrow> exn + pydict" where
  "extract_result E elapsed response_table =
     (case row0 E response_table ''success'' of
        Inl e \<Rightarrow> Inl e
      | Inr s \<Rightarrow>
          (case row0 E response_table ''rows_affected'' of
             Inl e \<Rightarrow> Inl e
           | Inr n \<Rightarrow>
               (case (if ''method_used'' \<in> set (schema_names response_table)
                      then row0 E response_table ''method_used'' else Inr PyNone) of
                  Inl e \<Rightarrow> Inl e
                | Inr m \<Rightarrow>
                    (case format_thousands E n of
                       Some e \<Rightarrow> Inl e
                     | None \<Rightarrow>
                         Inr [(''success'', s), (''rows_affected'', n),
                              (''execution_time_ms'', PyFloat elapsed),
                              (''method_used'', m)]))))"

definition update ::
  "env \<Rightarrow> client \<Rightarrow> history \<Rightarrow> table \<Rightarrow> string \<Rightarrow> (exn + pydict) \<times> history" where
  "update E c h arrow_table table_name =
     (case priv_ensure_connected c of
        Some e \<Rightarrow> (Inl e, h)
      | None \<Rightarrow>
          (let start_time = time_time E h;
               body = action_body E arrow_table table_name;
               r = do_action E h ''update'' body;
               h1 = h @ [(Do_action ''update'' body, raised r)]
           in case r of
                Inl e \<Rightarrow> (Inl (A2FlightClientError (''UPDATE failed: '' @ str e)), h1)
              | Inr results \<Rightarrow>
                  (case ipc_read E (concat results) of
                     Inl e \<Rightarrow> (Inl (A2FlightClientError (''UPDATE failed: '' @ str e)), h1)
                   | Inr response_table \<Rightarrow>
                       (case extract_result E ((time_time E h1 - start_time) * 1000)
                               response_table of
                          Inl e \<Rightarrow>
                            (Inl (A2FlightClientError (''UPDATE failed: '' @ str e)), h1)
                        | Inr result \<Rightarrow> (Inr result, h1)))))"

definition delete ::
  "env \<Rightarrow> client \<Rightarrow> history \<Rightarrow> table \<Rightarrow> string \<Rightarrow> (exn + pydict) \<times> history" where
  "delete E c h arrow_table table_name =
     (case priv_ensure_connected c of
        Some e \<Rightarrow> (Inl e, h)
      | None \<Rightarrow>
          (let start_time = time_time E h;
               body = action_body E arrow_table table_name;
               r = do_action E h ''delete'' body;
               h1 = h @ [(Do_action ''delete'' body, raised r)]
           in case r of
                Inl e \<Rightarrow> (Inl (A2FlightClientError (''DELETE failed: '' @ str e)), h1)
              | Inr results \<Rightarrow>
                  (case ipc_read E (concat results) of
                     Inl e \<Rightarrow> (Inl (A2FlightClientError (''DELETE failed: '' @ str e)), h1)
                   | Inr response_table \<Rightarrow>
                       (case extract_result E ((time_time E h1 - start_time) * 1000)
                               response_table of
                          Inl e \<Rightarrow>
                            (Inl (A2FlightClientError (''DELETE failed: '' @ str e)), h1)
                        | Inr result \<Rightarrow> (Inr result, h1)))))"

section \<open>The module-level client\<close>

text \<open>
  The module variable \<^verbatim>\<open>_global_client\<close> is a client or \<^verbatim>\<open>None\<close>. The functions
  below take it and return it with their result. \<^verbatim>\<open>A2FlightClient()\<close> without an
  argument loads the configuration, which may raise before the variable is assigned;
  the new client is assigned before \<^verbatim>\<open>connect\<close> is awaited.
\<close>

definition new_global_client ::
  "env \<Rightarrow> client option \<Rightarrow> history \<Rightarrow> (exn + client) \<times> client option \<times> history" where
  "new_global_client E g h =
     (case get_flight_client_config E of
        Inl e \<Rightarrow> (Inl e, g, h)
      | Inr cfg \<Rightarrow>
          (case connect E (A2FlightClient cfg) h of
             (Inl e, c', h') \<Rightarrow> (Inl e, Some c', h')
           | (Inr b, c', h') \<Rightarrow> (Inr c', Some c', h')))"

definition priv_get_global_client ::
  "env \<Rightarrow> client option \<Rightarrow> history \<Rightarrow> (exn + client) \<times> client option \<times> history" where
  "priv_get_global_client E g h =
     (case g of
        None \<Rightarrow> new_global_client E g h
      | Some c \<Rightarrow>
          if \<not> is_connected c then new_global_client E g h else (Inr c, g, h))"

definition a2db_ins ::
  "env \<Rightarrow> client option \<Rightarrow> history \<Rightarrow> table \<Rightarrow> string
     \<Rightarrow> (exn + pydict) \<times> client option \<times> history" where
  "a2db_ins E g h arrow_table table_name =
     (case priv_get_global_client E g h of
        (Inl e, g', h') \<Rightarrow> (Inl e, g', h')
      | (Inr c, g', h') \<Rightarrow>
          (case insert_op E c h' arrow_table table_name of (r, h'') \<Rightarrow> (r, g', h'')))"

definition a2db_sel ::
  "env \<Rightarrow> client option \<Rightarrow> history \<Rightarrow> string \<Rightarrow> (exn + table) \<times> client option \<times> history" where
  "a2db_sel E g h query =
     (case priv_get_global_client E g h of
        (Inl e, g', h') \<Rightarrow> (Inl e, g', h')
      | (Inr c, g', h') \<Rightarrow>
          (case select E c h' query of (r, h'') \<Rightarrow> (r, g', h'')))"

definition a2db_updt ::
  "env \<Rightarrow> client option \<Rightarrow> history \<Rightarrow> table \<Rightarrow> string
     \<Rightarrow> (exn + pydict) \<times> client option \<times> history" where
  "a2db_updt E g h arrow_table table_name =
     (case priv_get_global_client E g h of
        (Inl e, g', h') \<Rightarrow> (Inl e, g', h')
      | (Inr c, g', h') \<Rightarrow>
          (case update E c h' arrow_table table_name of (r, h'') \<Rightarrow> (r, g', h'')))"

definition a2db_del ::
  "env \<Rightarrow> client option \<Rightarrow> history \<Rightarrow> table \<Rightarrow> string
     \<Rightarrow> (exn + pydict) \<times> client option \<times> history" where
  "a2db_del E g h arrow_table table_name =
     (case priv_get_global_client E g h of
        (Inl e, g', h') \<Rightarrow> (Inl e, g', h')
      | (Inr c, g', h') \<Rightarrow>
          (case delete E c h' arrow_table table_name of (r, h'') \<Rightarrow> (r, g', h'')))"

definition a2db_close :: "env \<Rightarrow> client option \<Rightarrow> history \<Rightarrow> client option \<times> history" where
  "a2db_close E g h =
     (case g of
        None \<Rightarrow> (None, h)
      | Some c \<Rightarrow> (case close E c h of (c', h') \<Rightarrow> (None, h')))"

section \<open>Concrete configurations and transports\<close>

text \<open>
  A configuration with a credential and one with the placeholder of the configuration
  file, and a transport whose probe and handshake answer as given. Its codec knows three
  tables: a one-row batch, the envelope of that batch for the table \<open>t\<close>, and a
  response.
\<close>

definition cfg_key :: config where
  "cfg_key = \<lparr>client_name = ''etl'', api_key = ''a2db_key_0123456789abcdef0123456789'',
     server_location = ''grpc://localhost:50054''\<rparr>"

definition cfg_placeholder :: config where
  "cfg_placeholder = \<lparr>client_name = ''etl'', api_key = ''<to be entered>'',
     server_location = ''grpc://localhost:50054''\<rparr>"

definition client_connected :: client where
  "client_connected = \<lparr>config = cfg_key,
     priv_client = Some (FlightClient ''grpc://localhost:50054''), priv_connected = True\<rparr>"

definition client_with_handle :: client where
  "client_with_handle = \<lparr>config = cfg_key,
     priv_client = Some (FlightClient ''grpc://localhost:50054''), priv_connected = False\<rparr>"

definition batch1 :: table where
  "batch1 = [(''id'', [PyInt 1])]"

definition response1 :: table where
  "response1 = [(''success'', [PyBool True]), (''rows_affected'', [PyInt 1])]"

definition toy_tables :: "(bytes \<times> table) list" where
  "toy_tables =
     [(''B1'', batch1),
      (''E1'', [(''table_name'', [PyStr ''t'']), (''data'', [PyBytes ''B1''])]),
      (''R1'', response1)]"

definition toy_write :: "table \<Rightarrow> bytes" where
  "toy_write t = (case filter (\<lambda>p. snd p = t) toy_tables of [] \<Rightarrow> [] | p # ps \<Rightarrow> fst p)"

definition toy_read :: "bytes \<Rightarrow> exn + table" where
  "toy_read b =
     (case map_of toy_tables b of
        None \<Rightarrow> Inl (OtherError ''Invalid IPC stream'')
      | Some t \<Rightarrow> Inr t)"

definition env_of :: "exn option \<Rightarrow> exn option \<Rightarrow> exn + bytes list \<Rightarrow> env" where
  "env_of probe handshake action =
     \<lparr>new_FlightClient = (\<lambda>h loc. None),
      list_actions = (\<lambda>h. probe),
      authenticate_basic_token = (\<lambda>h name key. handshake),
      do_put = (\<lambda>h path names. Inr \<lparr>write_table = (\<lambda>t. None), writer_close = None\<rparr>),
      do_get = (\<lambda>h query. Inr \<lparr>read_all = Inr batch1, chunks = [batch1], chunks_error = None\<rparr>),
      do_action = (\<lambda>h name body. action),
      flight_close = (\<lambda>h. None),
      ipc_write = toy_write,
      ipc_read = toy_read,
      time_time = (\<lambda>h. real (length h)),
      lib_error = (\<lambda>f. ''library error''),
      get_flight_client_config = Inr cfg_key\<rparr>"

text \<open>A server that cannot be reached: every call over the network fails.\<close>

definition env_unreachable :: env where
  "env_unreachable =
     \<lparr>new_FlightClient = (\<lambda>h loc. None),
      list_actions = (\<lambda>h. Some (OtherError ''failed to connect to all addresses'')),
      authenticate_basic_token =
        (\<lambda>h name key. Some (OtherError ''failed to connect to all addresses'')),
      do_put = (\<lambda>h path names. Inl (OtherError ''failed to connect to all addresses'')),
      do_get = (\<lambda>h query. Inl (OtherError ''failed to connect to all addresses'')),
      do_action = (\<lambda>h name body. Inl (OtherError ''failed to connect to all addresses'')),
      flight_close = (\<lambda>h. None),
      ipc_write = toy_write,
      ipc_read = toy_read,
      time_time = (\<lambda>h. real (length h)),
      lib_error = (\<lambda>f. ''library error''),
      get_flight_client_config = Inr cfg_key\<rparr>"

section \<open>Observations on histories\<close>

text \<open>The events an operation appends to the history it was started with.\<close>

definition new_events :: "history \<Rightarrow> history \<Rightarrow> event list" where
  "new_events h h' = drop (length h) h'"

definition is_authenticate :: "call \<Rightarrow> bool" where
  "is_authenticate k = (case k of Authenticate_basic_token name key \<Rightarrow> True | _ \<Rightarrow> False)"

text \<open>
  The transport primitive a call belongs to, and the two shapes of a fail-fast history:
  no primitive occurs twice, and a call that raised is the last one.
\<close>

datatype primitive =
    P_new_FlightClient
  | P_list_actions
  | P_authenticate_basic_token
  | P_do_put
  | P_do_get
  | P_do_action
  | P_close

fun primitive_of :: "call \<Rightarrow> primitive" where
  "primitive_of (New_FlightClient loc) = P_new_FlightClient"
| "primitive_of List_actions = P_list_actions"
| "primitive_of (Authenticate_basic_token name key) = P_authenticate_basic_token"
| "primitive_of (Do_put path names) = P_do_put"
| "primitive_of (Do_get query) = P_do_get"
| "primitive_of (Do_action name body) = P_do_action"
| "primitive_of Close = P_close"

definition each_at_most_once :: "event list \<Rightarrow> bool" where
  "each_at_most_once evs = distinct (map (\<lambda>ev. primitive_of (fst ev)) evs)"

fun no_call_after_failure :: "event list \<Rightarrow> bool" where
  "no_call_after_failure [] = True"
| "no_call_after_failure [ev] = True"
| "no_call_after_failure (ev # ev' # evs) =
     (snd ev = None \<and> no_call_after_failure (ev' # evs))"

definition has_failure :: "event list \<Rightarrow> bool" where
  "has_failure evs = list_ex (\<lambda>ev. snd ev \<noteq> None) evs"

section \<open>Reading an action envelope\<close>

text \<open>
  The reader of the envelope as the specification words the wire encoding: a record
  of two fields, the first the table name in a single row, the second a single row
  of bytes holding the stream encoding of the caller's batch. It reads the body with
  the stream codec, takes row 0 of both fields and reads the payload with the codec
  again.
\<close>

definition decode_envelope :: "env \<Rightarrow> bytes \<Rightarrow> exn + (string \<times> table)" where
  "decode_envelope E body =
     (case ipc_read E body of
        Inl e \<Rightarrow> Inl e
      | Inr t \<Rightarrow>
          (case (row0 E t ''table_name'', row0 E t ''data'') of
             (Inr (PyStr name), Inr (PyBytes payload)) \<Rightarrow>
               (case ipc_read E payload of
                  Inl e \<Rightarrow> Inl e
                | Inr batch \<Rightarrow> Inr (name, batch))
           | _ \<Rightarrow> Inl (OtherError ''malformed envelope'')))"

section \<open>Facts about strings\<close>

lemma py_in_appendI2: "py_in p s \<Longrightarrow> py_in p (a @ s)"
  by (auto simp: py_in_def sublist_append)

lemma py_in_refl: "py_in p p"
  by (simp add: py_in_def)

section \<open>The text of authentication errors\<close>

lemma str_in_msg_unauthenticated: "py_in (str e) (msg_unauthenticated cfg e)"
  unfolding msg_unauthenticated_def by (intro py_in_appendI2 py_in_refl)

lemma str_in_msg_auth_other: "py_in (str e) (msg_auth_other e)"
  unfolding msg_auth_other_def by (intro py_in_appendI2 py_in_refl)

lemma auth_error_prefix:
  "\<exists>m. auth_error cfg e = A2FlightClientError m \<and> prefix ''Authentication failed'' m"
  by (simp add: auth_error_def Let_def msg_invalid_api_key_def msg_ip_not_whitelisted_def
      msg_client_disabled_def msg_unauthenticated_def msg_auth_other_def)

lemma lower_beyond_ascii:
  "lower (''INVALID API '' @ [CHR 0xE2, CHR 0x84, CHR 0xAA] @ ''EY'') = ''invalid api key''
   \<and> lower [CHR 0xC4, CHR 0xB0, CHR ''P''] = [CHR ''i'', CHR 0xCC, CHR 0x87, CHR ''p'']
   \<and> lower [CHR 0xC3, CHR 0x89] = [CHR 0xC3, CHR 0x89]"
  by code_simp

lemma take_code_points_beyond_ascii:
  "take_code_points 12 (''a2db_key_'' @ [CHR 0xC3, CHR 0xA9, CHR 0xC3, CHR 0xA9] @ ''xyz'')
     = ''a2db_key_'' @ [CHR 0xC3, CHR 0xA9, CHR 0xC3, CHR 0xA9] @ ''x''
   \<and> take_code_points 12 ''a2db_key_0123456789'' = ''a2db_key_012''"
  by code_simp

text \<open>
  Claim C1 says that a failure whose text contains \<open>ip not whitelisted\<close> always raises
  the ip-not-whitelisted error with the original text inside, and that all five branches
  of \<^verbatim>\<open>_authenticate\<close> embed the original text. Both fail. The client has its handle
  and the handshake raises: for the failure text \<open>ip not whitelisted\<close> the message
  raised is the fixed text about the IP address, in which, for the client \<open>etl\<close>, the
  failure text does not occur; and a text that also contains \<open>invalid api key\<close> is
  classified by the first branch.
\<close>

theorem authenticate_ip_not_whitelisted_counterexample:
  "py_in ''ip not whitelisted'' (str (OtherError ''ip not whitelisted''))
   \<and> fst (priv_authenticate (env_of None (Some (OtherError ''ip not whitelisted'')) (Inr []))
          client_with_handle [])
       = Inl (A2FlightClientError (msg_ip_not_whitelisted cfg_key))
   \<and> \<not> py_in (str (OtherError ''ip not whitelisted'')) (msg_ip_not_whitelisted cfg_key)
   \<and> py_in ''ip not whitelisted'' (str (OtherError ''invalid api key; ip not whitelisted''))
   \<and> fst (priv_authenticate
            (env_of None (Some (OtherError ''invalid api key; ip not whitelisted'')) (Inr []))
            client_with_handle [])
       = Inl (A2FlightClientError (msg_invalid_api_key cfg_key))
   \<and> msg_invalid_api_key cfg_key \<noteq> msg_ip_not_whitelisted cfg_key"
  by code_simp

text \<open>
  Claim C1, amended. The call \<^verbatim>\<open>self._client.authenticate_basic_token(...)\<close> raises the
  exception \<open>e\<close> (the handshake's, or the \<^verbatim>\<open>AttributeError\<close> of a client without a
  handle). If the lower-cased text of \<open>e\<close> contains \<open>ip not whitelisted\<close> and not
  \<open>invalid api key\<close>, the error raised is the ip-not-whitelisted message, which is built
  from the configured client name alone. In every branch the error is an
  \<^verbatim>\<open>A2FlightClientError\<close> whose text starts with \<open>Authentication failed\<close>; in the last
  two branches (generic unauthenticated, and unclassified), which are the ones reached
  when none of the first three patterns occurs, the text of \<open>e\<close> is part of it.
\<close>

theorem authenticate_error_text:
  assumes "fst (client_authenticate_basic_token E c h) = Some e"
  shows "(py_in ''ip not whitelisted'' (lower (str e))
            \<and> \<not> py_in ''invalid api key'' (lower (str e))
            \<longrightarrow> fst (priv_authenticate E c h)
                  = Inl (A2FlightClientError (msg_ip_not_whitelisted (config c))))
       \<and> (\<exists>m. fst (priv_authenticate E c h) = Inl (A2FlightClientError m)
              \<and> prefix ''Authentication failed'' m
              \<and> (\<not> py_in ''invalid api key'' (lower (str e))
                 \<and> \<not> py_in ''ip not whitelisted'' (lower (str e))
                 \<and> \<not> py_in ''access denied'' (lower (str e))
                 \<and> \<not> py_in ''client disabled'' (lower (str e))
                 \<longrightarrow> py_in (str e) m))"
proof -
  have r: "fst (priv_authenticate E c h) = Inl (auth_error (config c) e)"
    using assms
    by (cases "client_authenticate_basic_token E c h") (simp add: priv_authenticate_def)
  have a: "py_in ''ip not whitelisted'' (lower (str e))
            \<and> \<not> py_in ''invalid api key'' (lower (str e))
            \<longrightarrow> auth_error (config c) e
                  = A2FlightClientError (msg_ip_not_whitelisted (config c))"
    by (simp add: auth_error_def Let_def)
  obtain m where m: "auth_error (config c) e = A2FlightClientError m"
      "prefix ''Authentication failed'' m"
    using auth_error_prefix by blast
  have b: "\<not> py_in ''invalid api key'' (lower (str e))
                 \<and> \<not> py_in ''ip not whitelisted'' (lower (str e))
                 \<and> \<not> py_in ''access denied'' (lower (str e))
                 \<and> \<not> py_in ''client disabled'' (lower (str e))
                 \<longrightarrow> py_in (str e) m"
    using m(1) str_in_msg_unauthenticated[of e "config c"] str_in_msg_auth_other[of e]
    by (auto simp: auth_error_def Let_def split: if_splits)
  show ?thesis using r a m b by simp
qed

theorem authenticate_error_text_witness:
  "fst (priv_authenticate
          (env_of None (Some (OtherError ''IP Not Whitelisted: 10.0.0.7'')) (Inr []))
          client_with_handle [])
     = Inl (A2FlightClientError (msg_ip_not_whitelisted cfg_key))
   \<and> (\<exists>m. fst (priv_authenticate (env_of None (Some (OtherError ''token expired'')) (Inr []))
          client_with_handle []) = Inl (A2FlightClientError m)
        \<and> py_in ''token expired'' m)
   \<and> (\<exists>m. fst (priv_authenticate (env_of None None (Inr [])) (A2FlightClient cfg_key) [])
          = Inl (A2FlightClientError m)
        \<and> py_in (str (none_attribute_error ''authenticate_basic_token'')) m)"
proof -
  let ?e1 = "OtherError ''IP Not Whitelisted: 10.0.0.7''"
  let ?e2 = "OtherError ''token expired''"
  let ?e3 = "none_attribute_error ''authenticate_basic_token''"
  let ?c = "client_with_handle"
  let ?d = "A2FlightClient cfg_key"
  have h1: "fst (client_authenticate_basic_token (env_of None (Some ?e1) (Inr [])) ?c [])
              = Some ?e1"
    by code_simp
  have h2: "fst (client_authenticate_basic_token (env_of None (Some ?e2) (Inr [])) ?c [])
              = Some ?e2"
    by code_simp
  have h3: "fst (client_authenticate_basic_token (env_of None None (Inr [])) ?d [])
              = Some ?e3"
    by code_simp
  have p1: "py_in ''ip not whitelisted'' (lower (str ?e1))
              \<and> \<not> py_in ''invalid api key'' (lower (str ?e1))"
    by code_simp
  have p2: "\<not> py_in ''invalid api key'' (lower (str ?e2))
                 \<and> \<not> py_in ''ip not whitelisted'' (lower (str ?e2))
                 \<and> \<not> py_in ''access denied'' (lower (str ?e2))
                 \<and> \<not> py_in ''client disabled'' (lower (str ?e2))"
    by code_simp
  have p3: "\<not> py_in ''invalid api key'' (lower (str ?e3))
                 \<and> \<not> py_in ''ip not whitelisted'' (lower (str ?e3))
                 \<and> \<not> py_in ''access denied'' (lower (str ?e3))
                 \<and> \<not> py_in ''client disabled'' (lower (str ?e3))"
    by code_simp
  have c: "config ?c = cfg_key" by (simp add: client_with_handle_def)
  have s2: "str ?e2 = ''token expired''" by simp
  have t1: "fst (priv_authenticate (env_of None (Some ?e1) (Inr [])) ?c [])
              = Inl (A2FlightClientError (msg_ip_not_whitelisted cfg_key))"
    using authenticate_error_text[OF h1, THEN conjunct1] p1 c by simp
  have t2: "\<exists>m. fst (priv_authenticate (env_of None (Some ?e2) (Inr [])) ?c [])
                  = Inl (A2FlightClientError m) \<and> py_in ''token expired'' m"
    using authenticate_error_text[OF h2, THEN conjunct2] p2 s2 by auto
  have t3: "\<exists>m. fst (priv_authenticate (env_of None None (Inr [])) ?d [])
                  = Inl (A2FlightClientError m) \<and> py_in (str ?e3) m"
    using authenticate_error_text[OF h3, THEN conjunct2] p3 by auto
  show ?thesis using t1 t2 t3 by (intro conjI)
qed

section \<open>Connecting: the probe and the handshake\<close>

lemma new_events_append [simp]: "new_events h (h @ es) = es"
  by (simp add: new_events_def)

lemma new_events_self [simp]: "new_events h h = []"
  by (simp add: new_events_def)

lemma priv_authenticate_with_handle:
  "priv_client c = Some fc \<Longrightarrow>
   priv_authenticate E c h
     = (case authenticate_basic_token E h (client_name (config c)) (api_key (config c)) of
          None \<Rightarrow>
            (Inr (),
             h @ [(Authenticate_basic_token (client_name (config c)) (api_key (config c)),
                   None)])
        | Some e \<Rightarrow>
            (Inl (auth_error (config c) e),
             h @ [(Authenticate_basic_token (client_name (config c)) (api_key (config c)),
                   Some e)]))"
  by (simp add: priv_authenticate_def client_authenticate_basic_token_def Let_def
      split: option.splits)

text \<open>
  Claim C2. A credential is configured, the handle is created, and the probe
  \<^verbatim>\<open>list_actions\<close> fails with an exception whose lower-cased text contains
  \<open>unauthenticated\<close> or \<open>unauthorized\<close>. Then \<^verbatim>\<open>connect\<close> makes exactly one
  \<^verbatim>\<open>authenticate_basic_token\<close> call, the single call \<^verbatim>\<open>_authenticate\<close> makes; and
  if that call succeeds, \<^verbatim>\<open>connect\<close> returns \<^verbatim>\<open>True\<close> with the client connected.
\<close>

theorem connect_authenticates_once:
  assumes "has_credential (config c)"
    and "new_FlightClient E h (server_location (config c)) = None"
    and "list_actions E (h @ [(New_FlightClient (server_location (config c)), None)]) = Some e"
    and "auth_class e"
  shows "length (filter (\<lambda>ev. is_authenticate (fst ev))
                   (new_events h (snd (snd (connect E c h))))) = 1
       \<and> (authenticate_basic_token E
             (h @ [(New_FlightClient (server_location (config c)), None),
                   (List_actions, Some e)])
             (client_name (config c)) (api_key (config c)) = None
           \<longrightarrow> fst (connect E c h) = Inr True
               \<and> priv_connected (fst (snd (connect E c h)))
               \<and> is_connected (fst (snd (connect E c h))))"
  using assms
  by (cases "priv_authenticate E
               (c\<lparr>priv_client := Some (FlightClient (server_location (config c)))\<rparr>)
               (h @ [(New_FlightClient (server_location (config c)), None),
                     (List_actions, Some e)])")
     (auto simp: connect_def connect_try_def Let_def is_connected_def is_authenticate_def
        new_events_def priv_authenticate_with_handle
        dest: arg_cong[where f=snd] arg_cong[where f=fst]
        split: option.splits sum.splits)

theorem connect_authenticates_once_witness:
  "length (filter (\<lambda>ev. is_authenticate (fst ev))
       (new_events []
          (snd (snd (connect (env_of (Some (OtherError ''Unauthenticated: no token'')) None (Inr []))
                       (A2FlightClient cfg_key) []))))) = 1
   \<and> fst (connect (env_of (Some (OtherError ''Unauthenticated: no token'')) None (Inr []))
            (A2FlightClient cfg_key) []) = Inr True
   \<and> is_connected (fst (snd (connect
            (env_of (Some (OtherError ''Unauthenticated: no token'')) None (Inr []))
            (A2FlightClient cfg_key) [])))"
proof -
  let ?e = "OtherError ''Unauthenticated: no token''"
  let ?E = "env_of (Some ?e) None (Inr [])"
  let ?c = "A2FlightClient cfg_key"
  have a1: "has_credential (config ?c)" by code_simp
  have a2: "new_FlightClient ?E [] (server_location (config ?c)) = None"
    by (simp add: env_of_def)
  have a3: "list_actions ?E ([] @ [(New_FlightClient (server_location (config ?c)), None)])
              = Some ?e"
    by (simp add: env_of_def)
  have a4: "auth_class ?e" by code_simp
  have a5: "authenticate_basic_token ?E
              ([] @ [(New_FlightClient (server_location (config ?c)), None),
                     (List_actions, Some ?e)])
              (client_name (config ?c)) (api_key (config ?c)) = None"
    by (simp add: env_of_def)
  show ?thesis using connect_authenticates_once[OF a1 a2 a3 a4] a5 by simp
qed

text \<open>
  Claim C3. With an empty credential or the placeholder, \<^verbatim>\<open>connect\<close> makes neither
  the probe \<^verbatim>\<open>list_actions\<close> nor an \<^verbatim>\<open>authenticate_basic_token\<close> call; and when the
  handle can be created, it returns \<^verbatim>\<open>True\<close>, the only event is the creation of the
  handle, and the client is connected.
\<close>

theorem connect_without_credential:
  assumes "api_key (config c) = [] \<or> api_key (config c) = ''<to be entered>''"
  shows "(\<forall>ev \<in> set (new_events h (snd (snd (connect E c h)))).
            fst ev \<noteq> List_actions \<and> \<not> is_authenticate (fst ev))
       \<and> (new_FlightClient E h (server_location (config c)) = None
           \<longrightarrow> connect E c h
                 = (Inr True,
                    c\<lparr>priv_client := Some (FlightClient (server_location (config c))),
                      priv_connected := True\<rparr>,
                    h @ [(New_FlightClient (server_location (config c)), None)])
               \<and> is_connected (fst (snd (connect E c h))))"
  using assms
  by (auto simp: connect_def connect_try_def Let_def has_credential_def is_connected_def
        is_authenticate_def split: option.splits)

theorem connect_without_credential_witness:
  "connect (env_of (Some (OtherError ''unauthenticated'')) (Some (OtherError ''invalid api key''))
              (Inr []))
     (A2FlightClient cfg_placeholder) []
   = (Inr True,
      \<lparr>config = cfg_placeholder, priv_client = Some (FlightClient ''grpc://localhost:50054''),
       priv_connected = True\<rparr>,
      [(New_FlightClient ''grpc://localhost:50054'', None)])"
proof -
  let ?E = "env_of (Some (OtherError ''unauthenticated'')) (Some (OtherError ''invalid api key''))
              (Inr [])"
  let ?c = "A2FlightClient cfg_placeholder"
  have a1: "api_key (config ?c) = [] \<or> api_key (config ?c) = ''<to be entered>''"
    by (simp add: A2FlightClient_def cfg_placeholder_def)
  have a2: "new_FlightClient ?E [] (server_location (config ?c)) = None"
    by (simp add: env_of_def)
  show ?thesis using connect_without_credential[OF a1, of "[]" ?E] a2
    by (simp add: A2FlightClient_def cfg_placeholder_def)
qed

text \<open>
  Claim C4 says that a probe failure of any other class reaches the caller of
  \<^verbatim>\<open>connect\<close> unchanged. The inner \<^verbatim>\<open>raise\<close> is caught by the outer handler of
  \<^verbatim>\<open>connect\<close>: the failure \<open>internal error\<close> arrives as an
  \<^verbatim>\<open>A2FlightClientError\<close> with the text \<open>Connection failed: internal error\<close>, and a
  failure whose text contains \<open>unavailable\<close> arrives as the message that the server is
  not running, without the original text.
\<close>

theorem connect_probe_error_rewrapped_counterexample:
  "\<not> auth_class (OtherError ''internal error'')
   \<and> \<not> auth_disabled_class (OtherError ''internal error'')
   \<and> fst (connect (env_of (Some (OtherError ''internal error'')) None (Inr []))
            (A2FlightClient cfg_key) [])
       = Inl (A2FlightClientError ''Connection failed: internal error'')
   \<and> Inl (A2FlightClientError ''Connection failed: internal error'')
       \<noteq> (Inl (OtherError ''internal error'') :: exn + bool)
   \<and> \<not> auth_class (OtherError ''Deadline exceeded: server unavailable'')
   \<and> \<not> auth_disabled_class (OtherError ''Deadline exceeded: server unavailable'')
   \<and> fst (connect (env_of (Some (OtherError ''Deadline exceeded: server unavailable'')) None
                     (Inr []))
            (A2FlightClient cfg_key) [])
       = Inl (A2FlightClientError
                ''Arrow Flight server is not running at grpc://localhost:50054'')"
  by code_simp

text \<open>
  Claim C4, amended. A probe failure \<open>e\<close> that is neither of the authentication class nor
  of the authentication-disabled class is no signal to authenticate: the history ends with
  the failed probe, the client keeps its flag, and \<^verbatim>\<open>connect\<close> raises an
  \<^verbatim>\<open>A2FlightClientError\<close> whose text is either the server-not-running message for the
  configured location or \<open>Connection failed: \<close> followed by the text of \<open>e\<close>.
\<close>

theorem connect_probe_other_error:
  assumes "has_credential (config c)"
    and "new_FlightClient E h (server_location (config c)) = None"
    and "list_actions E (h @ [(New_FlightClient (server_location (config c)), None)]) = Some e"
    and "\<not> auth_class e" and "\<not> auth_disabled_class e"
  shows "connect E c h
           = (Inl (connect_error (config c) e),
              c\<lparr>priv_client := Some (FlightClient (server_location (config c)))\<rparr>,
              h @ [(New_FlightClient (server_location (config c)), None), (List_actions, Some e)])
       \<and> (\<exists>m. connect_error (config c) e = A2FlightClientError m
             \<and> (m = ''Arrow Flight server is not running at '' @ server_location (config c)
                \<or> m = ''Connection failed: '' @ str e))"
  using assms
  by (auto simp: connect_def connect_try_def Let_def connect_error_def)

theorem connect_probe_other_error_witness:
  "connect (env_of (Some (OtherError ''internal error'')) None (Inr []))
     (A2FlightClient cfg_key) []
   = (Inl (A2FlightClientError ''Connection failed: internal error''),
      \<lparr>config = cfg_key, priv_client = Some (FlightClient ''grpc://localhost:50054''),
       priv_connected = False\<rparr>,
      [(New_FlightClient ''grpc://localhost:50054'', None),
       (List_actions, Some (OtherError ''internal error''))])"
proof -
  let ?e = "OtherError ''internal error''"
  let ?E = "env_of (Some ?e) None (Inr [])"
  let ?c = "A2FlightClient cfg_key"
  have a1: "has_credential (config ?c)" by code_simp
  have a2: "new_FlightClient ?E [] (server_location (config ?c)) = None"
    by (simp add: env_of_def)
  have a3: "list_actions ?E ([] @ [(New_FlightClient (server_location (config ?c)), None)])
              = Some ?e"
    by (simp add: env_of_def)
  have a4: "\<not> auth_class ?e" by code_simp
  have a5: "\<not> auth_disabled_class ?e" by code_simp
  have m: "connect_error (config ?c) ?e
             = A2FlightClientError ''Connection failed: internal error''"
    by code_simp
  show ?thesis using connect_probe_other_error[OF a1 a2 a3 a4 a5] m
    by (simp add: A2FlightClient_def cfg_key_def)
qed

text \<open>
  Claim C10. \<^verbatim>\<open>connect\<close> either raises or returns \<^verbatim>\<open>True\<close> with the flag set, never
  \<^verbatim>\<open>False\<close>. With an empty credential or the placeholder, once the handle is created,
  it returns \<^verbatim>\<open>True\<close> and the client is connected, and the only event is the creation
  of the handle: no call goes over the network, whatever the server would answer.
\<close>

theorem connect_never_returns_false:
  "((\<exists>e. fst (connect E c h) = Inl e)
      \<or> (fst (connect E c h) = Inr True
          \<and> priv_connected (fst (snd (connect E c h)))
          \<and> is_connected (fst (snd (connect E c h)))))
   \<and> ((api_key (config c) = [] \<or> api_key (config c) = ''<to be entered>'')
        \<and> new_FlightClient E h (server_location (config c)) = None
       \<longrightarrow> fst (connect E c h) = Inr True
           \<and> is_connected (fst (snd (connect E c h)))
           \<and> new_events h (snd (snd (connect E c h)))
               = [(New_FlightClient (server_location (config c)), None)])"
  by (cases "priv_authenticate E
               (c\<lparr>priv_client := Some (FlightClient (server_location (config c)))\<rparr>)
               (h @ [(New_FlightClient (server_location (config c)), None),
                     (List_actions,
                      list_actions E
                        (h @ [(New_FlightClient (server_location (config c)), None)]))])")
     (auto simp: connect_def connect_try_def Let_def has_credential_def is_connected_def
        split: option.splits sum.splits)

theorem connect_never_returns_false_witness:
  "fst (connect env_unreachable (A2FlightClient cfg_placeholder) []) = Inr True
   \<and> is_connected (fst (snd (connect env_unreachable (A2FlightClient cfg_placeholder) [])))
   \<and> new_events [] (snd (snd (connect env_unreachable (A2FlightClient cfg_placeholder) [])))
       = [(New_FlightClient ''grpc://localhost:50054'', None)]"
proof -
  let ?c = "A2FlightClient cfg_placeholder"
  have a1: "api_key (config ?c) = [] \<or> api_key (config ?c) = ''<to be entered>''"
    by (simp add: A2FlightClient_def cfg_placeholder_def)
  have a2: "new_FlightClient env_unreachable [] (server_location (config ?c)) = None"
    by (simp add: env_unreachable_def)
  show ?thesis using connect_never_returns_false[of env_unreachable ?c "[]"] a1 a2
    by (simp add: A2FlightClient_def cfg_placeholder_def)
qed

section \<open>Operations on a client that is not connected\<close>

lemma ensure_not_connected:
  "\<not> is_connected c \<Longrightarrow>
     priv_ensure_connected c = Some (A2FlightClientError ''Not connected. Call connect() first.'')"
  by (auto simp: priv_ensure_connected_def is_connected_def)

lemma ensure_connected: "is_connected c \<Longrightarrow> priv_ensure_connected c = None"
  by (auto simp: priv_ensure_connected_def is_connected_def)

lemma connect_failure_keeps_flag:
  "fst (connect E c h) = Inl e \<Longrightarrow> priv_connected (fst (snd (connect E c h))) = priv_connected c"
  by (cases "priv_authenticate E
               (c\<lparr>priv_client := Some (FlightClient (server_location (config c)))\<rparr>)
               (h @ [(New_FlightClient (server_location (config c)), None),
                     (List_actions,
                      list_actions E
                        (h @ [(New_FlightClient (server_location (config c)), None)]))])")
     (auto simp: connect_def connect_try_def Let_def split: option.splits sum.splits if_splits)

text \<open>
  Claim C5. A new client has the flag \<^verbatim>\<open>_connected\<close> unset, and a \<^verbatim>\<open>connect\<close> that
  raises leaves it unset: it is set only where \<^verbatim>\<open>connect\<close> completes. On a client
  whose flag is unset (or that has no handle) each of \<^verbatim>\<open>insert\<close>, \<^verbatim>\<open>select\<close>,
  \<^verbatim>\<open>select_streaming\<close> (when it is iterated), \<^verbatim>\<open>update\<close> and \<^verbatim>\<open>delete\<close> raises
  the error \<open>Not connected. Call connect() first.\<close> and the history is unchanged: no
  transport call is made.
\<close>

theorem crud_requires_connect:
  "\<not> priv_connected (A2FlightClient cfg)
   \<and> (\<not> priv_connected c \<and> fst (connect E c h1) = Inl e
        \<longrightarrow> \<not> priv_connected (fst (snd (connect E c h1))))
   \<and> (\<not> priv_connected c \<or> priv_client c = None
        \<longrightarrow> insert_op E c h arrow_table table_name
               = (Inl (A2FlightClientError ''Not connected. Call connect() first.''), h)
          \<and> select E c h query
               = (Inl (A2FlightClientError ''Not connected. Call connect() first.''), h)
          \<and> select_streaming E c h query
               = ([], Some (A2FlightClientError ''Not connected. Call connect() first.''), h)
          \<and> update E c h arrow_table table_name
               = (Inl (A2FlightClientError ''Not connected. Call connect() first.''), h)
          \<and> delete E c h arrow_table table_name
               = (Inl (A2FlightClientError ''Not connected. Call connect() first.''), h))"
proof -
  have a: "\<not> priv_connected (A2FlightClient cfg)" by (simp add: A2FlightClient_def)
  have b: "\<not> priv_connected c \<and> fst (connect E c h1) = Inl e
        \<longrightarrow> \<not> priv_connected (fst (snd (connect E c h1)))"
    using connect_failure_keeps_flag by blast
  have c: "\<not> priv_connected c \<or> priv_client c = None \<Longrightarrow>
     priv_ensure_connected c = Some (A2FlightClientError ''Not connected. Call connect() first.'')"
    by (rule ensure_not_connected) (auto simp: is_connected_def)
  show ?thesis using a b c
    by (simp add: insert_op_def select_def select_streaming_def update_def delete_def)
qed

theorem crud_requires_connect_witness:
  "update env_unreachable (A2FlightClient cfg_key) [] batch1 ''t''
     = (Inl (A2FlightClientError ''Not connected. Call connect() first.''), [])
   \<and> \<not> priv_connected
         (fst (snd (connect env_unreachable (A2FlightClient cfg_key) [])))
   \<and> select_streaming env_unreachable
        (fst (snd (connect env_unreachable (A2FlightClient cfg_key) []))) [] ''SELECT 1''
     = ([], Some (A2FlightClientError ''Not connected. Call connect() first.''), [])"
proof -
  let ?c = "A2FlightClient cfg_key"
  let ?c' = "fst (snd (connect env_unreachable ?c []))"
  let ?e = "A2FlightClientError
              ''Arrow Flight server is not running at grpc://localhost:50054''"
  have a: "\<not> priv_connected ?c" by (simp add: A2FlightClient_def)
  have f: "fst (connect env_unreachable ?c []) = Inl ?e"
    by code_simp
  have b: "\<not> priv_connected ?c'"
    using crud_requires_connect[where c = ?c and E = env_unreachable and ?h1.0 = "[]"
        and e = ?e] a f
    by simp
  show ?thesis
    using crud_requires_connect[where c = ?c and E = env_unreachable and h = "[]"
        and arrow_table = batch1 and table_name = "''t''"]
      crud_requires_connect[where c = ?c' and E = env_unreachable and h = "[]"
        and query = "''SELECT 1''"]
      a b by simp
qed

section \<open>The action envelope\<close>

lemma update_connected:
  "is_connected c \<Longrightarrow>
   update E c h t n =
     (let body = action_body E t n;
          r = do_action E h ''update'' body;
          h1 = h @ [(Do_action ''update'' body, raised r)]
      in case r of
           Inl e \<Rightarrow> (Inl (A2FlightClientError (''UPDATE failed: '' @ str e)), h1)
         | Inr results \<Rightarrow>
             (case ipc_read E (concat results) of
                Inl e \<Rightarrow> (Inl (A2FlightClientError (''UPDATE failed: '' @ str e)), h1)
              | Inr response_table \<Rightarrow>
                  (case extract_result E ((time_time E h1 - time_time E h) * 1000)
                          response_table of
                     Inl e \<Rightarrow> (Inl (A2FlightClientError (''UPDATE failed: '' @ str e)), h1)
                   | Inr result \<Rightarrow> (Inr result, h1))))"
  by (simp add: update_def ensure_connected Let_def)

lemma delete_connected:
  "is_connected c \<Longrightarrow>
   delete E c h t n =
     (let body = action_body E t n;
          r = do_action E h ''delete'' body;
          h1 = h @ [(Do_action ''delete'' body, raised r)]
      in case r of
           Inl e \<Rightarrow> (Inl (A2FlightClientError (''DELETE failed: '' @ str e)), h1)
         | Inr results \<Rightarrow>
             (case ipc_read E (concat results) of
                Inl e \<Rightarrow> (Inl (A2FlightClientError (''DELETE failed: '' @ str e)), h1)
              | Inr response_table \<Rightarrow>
                  (case extract_result E ((time_time E h1 - time_time E h) * 1000)
                          response_table of
                     Inl e \<Rightarrow> (Inl (A2FlightClientError (''DELETE failed: '' @ str e)), h1)
                   | Inr result \<Rightarrow> (Inr result, h1))))"
  by (simp add: delete_def ensure_connected Let_def)

lemma update_new_events:
  "is_connected c \<Longrightarrow>
   new_events h (snd (update E c h t n))
     = [(Do_action ''update'' (action_body E t n),
         raised (do_action E h ''update'' (action_body E t n)))]"
  by (simp add: update_connected Let_def split: sum.splits)

lemma delete_new_events:
  "is_connected c \<Longrightarrow>
   new_events h (snd (delete E c h t n))
     = [(Do_action ''delete'' (action_body E t n),
         raised (do_action E h ''delete'' (action_body E t n)))]"
  by (simp add: delete_connected Let_def split: sum.splits)

lemma row0_metadata_table:
  "row0 E (metadata_table E t n) ''table_name'' = Inr (PyStr n)"
  "row0 E (metadata_table E t n) ''data'' = Inr (PyBytes (ipc_write E t))"
  by (simp_all add: row0_def getitem_def metadata_table_def)

text \<open>
  Claim C6. The stream codec is pyarrow's; it is a parameter of the model, taken to
  read back what it wrote for the caller's batch and for the envelope. On a connected
  client \<^verbatim>\<open>update\<close> and \<^verbatim>\<open>delete\<close> make one \<^verbatim>\<open>do_action\<close> call, named
  \<open>update\<close> and \<open>delete\<close>, whose body is the encoded envelope. The envelope has the
  two columns \<open>table_name\<close> and \<open>data\<close> and one row. Reading the body back gives the
  same table name, and reading the payload back gives the caller's batch.
\<close>

theorem action_envelope_roundtrip:
  assumes "is_connected c"
    and "ipc_read E (ipc_write E arrow_table) = Inr arrow_table"
    and "ipc_read E (ipc_write E (metadata_table E arrow_table table_name))
           = Inr (metadata_table E arrow_table table_name)"
  shows "map fst (new_events h (snd (update E c h arrow_table table_name)))
           = [Do_action ''update'' (action_body E arrow_table table_name)]
       \<and> map fst (new_events h (snd (delete E c h arrow_table table_name)))
           = [Do_action ''delete'' (action_body E arrow_table table_name)]
       \<and> schema_names (metadata_table E arrow_table table_name) = [''table_name'', ''data'']
       \<and> num_rows (metadata_table E arrow_table table_name) = 1
       \<and> decode_envelope E (action_body E arrow_table table_name)
           = Inr (table_name, arrow_table)"
proof -
  have d: "decode_envelope E (action_body E arrow_table table_name)
             = Inr (table_name, arrow_table)"
    using assms(2,3) by (simp add: decode_envelope_def action_body_def row0_metadata_table)
  have s: "schema_names (metadata_table E arrow_table table_name) = [''table_name'', ''data'']"
      "num_rows (metadata_table E arrow_table table_name) = 1"
    by (simp_all add: schema_names_def num_rows_def metadata_table_def)
  show ?thesis
    using d s update_new_events[OF assms(1)] delete_new_events[OF assms(1)] by simp
qed

theorem action_envelope_roundtrip_witness:
  "map fst (new_events [] (snd (update (env_of None None (Inr [''R1''])) client_connected []
                                  batch1 ''t'')))
     = [Do_action ''update'' ''E1'']
   \<and> decode_envelope (env_of None None (Inr [''R1''])) ''E1'' = Inr (''t'', batch1)"
proof -
  let ?E = "env_of None None (Inr [''R1''])"
  have a1: "is_connected client_connected" by code_simp
  have a2: "ipc_read ?E (ipc_write ?E batch1) = Inr batch1" by code_simp
  have a3: "ipc_read ?E (ipc_write ?E (metadata_table ?E batch1 ''t''))
              = Inr (metadata_table ?E batch1 ''t'')" by code_simp
  have b: "action_body ?E batch1 ''t'' = ''E1''" by code_simp
  show ?thesis using action_envelope_roundtrip[OF a1 a2 a3, of "[]"] b by simp
qed

section \<open>The result of an action\<close>

lemma extract_result_Inr:
  "extract_result E el rt = Inr d \<Longrightarrow>
     \<exists>s a m. row0 E rt ''success'' = Inr s \<and> row0 E rt ''rows_affected'' = Inr a
       \<and> d = [(''success'', s), (''rows_affected'', a), (''execution_time_ms'', PyFloat el),
              (''method_used'', m)]"
  by (auto simp: extract_result_def split: sum.splits option.splits if_splits)

lemma extract_result_no_method_used:
  "''method_used'' \<notin> set (schema_names rt) \<Longrightarrow> row0 E rt ''success'' = Inr s \<Longrightarrow>
   row0 E rt ''rows_affected'' = Inr a \<Longrightarrow> format_thousands E a = None \<Longrightarrow>
   extract_result E el rt
     = Inr [(''success'', s), (''rows_affected'', a), (''execution_time_ms'', PyFloat el),
            (''method_used'', PyNone)]"
  by (simp add: extract_result_def)

lemma update_decoded:
  "is_connected c \<Longrightarrow> do_action E h ''update'' (action_body E t n) = Inr results \<Longrightarrow>
   ipc_read E (concat results) = Inr rt \<Longrightarrow>
   fst (update E c h t n)
     = (case extract_result E
               ((time_time E (h @ [(Do_action ''update'' (action_body E t n), None)])
                 - time_time E h) * 1000) rt of
          Inl e \<Rightarrow> Inl (A2FlightClientError (''UPDATE failed: '' @ str e))
        | Inr result \<Rightarrow> Inr result)"
  by (simp add: update_connected Let_def raised_def split: sum.splits)

lemma delete_decoded:
  "is_connected c \<Longrightarrow> do_action E h ''delete'' (action_body E t n) = Inr results \<Longrightarrow>
   ipc_read E (concat results) = Inr rt \<Longrightarrow>
   fst (delete E c h t n)
     = (case extract_result E
               ((time_time E (h @ [(Do_action ''delete'' (action_body E t n), None)])
                 - time_time E h) * 1000) rt of
          Inl e \<Rightarrow> Inl (A2FlightClientError (''DELETE failed: '' @ str e))
        | Inr result \<Rightarrow> Inr result)"
  by (simp add: delete_connected Let_def raised_def split: sum.splits)

text \<open>
  Claim C7. A connected client calls \<^verbatim>\<open>update\<close> or \<^verbatim>\<open>delete\<close>, the action returns
  its result bodies, and their concatenation decodes to a response table. Whenever the
  call returns a result, its \<open>success\<close> and \<open>rows_affected\<close> are the values of the
  response table's columns of these names at row 0. When the response table has no
  column \<open>method_used\<close>, a returned result has \<open>method_used\<close> equal to \<^verbatim>\<open>None\<close>,
  and the call does return a result, without an error, for every response table that has
  the \<open>success\<close> value and a numeric \<open>rows_affected\<close> value at row 0.
\<close>

theorem action_result_fields:
  assumes "is_connected c"
    and "name = ''update'' \<or> name = ''delete''"
    and "do_action E h name (action_body E arrow_table table_name) = Inr results"
    and "ipc_read E (concat results) = Inr response_table"
    and "r = (if name = ''update'' then fst (update E c h arrow_table table_name)
              else fst (delete E c h arrow_table table_name))"
  shows "(\<forall>d. r = Inr d \<longrightarrow>
            (\<exists>s a. row0 E response_table ''success'' = Inr s
               \<and> row0 E response_table ''rows_affected'' = Inr a
               \<and> map_of d ''success'' = Some s \<and> map_of d ''rows_affected'' = Some a))
       \<and> (''method_used'' \<notin> set (schema_names response_table)
            \<longrightarrow> (\<forall>d. r = Inr d \<longrightarrow> map_of d ''method_used'' = Some PyNone)
               \<and> (\<forall>s a. row0 E response_table ''success'' = Inr s
                      \<and> row0 E response_table ''rows_affected'' = Inr a
                      \<and> format_thousands E a = None
                    \<longrightarrow> (\<exists>d. r = Inr d \<and> map_of d ''success'' = Some s
                           \<and> map_of d ''rows_affected'' = Some a
                           \<and> map_of d ''method_used'' = Some PyNone)))"
proof -
  define el where "el = (time_time E
      (h @ [(Do_action name (action_body E arrow_table table_name), None)])
      - time_time E h) * 1000"
  have r: "r = (case extract_result E el response_table of
                  Inl e \<Rightarrow> Inl (A2FlightClientError
                     ((if name = ''update'' then ''UPDATE failed: '' else ''DELETE failed: '')
                      @ str e))
                | Inr result \<Rightarrow> Inr result)"
    using assms update_decoded[OF assms(1), of E h arrow_table table_name results response_table]
      delete_decoded[OF assms(1), of E h arrow_table table_name results response_table]
    by (auto simp: el_def split: sum.splits)
  have p1: "\<forall>d. r = Inr d \<longrightarrow>
            (\<exists>s a. row0 E response_table ''success'' = Inr s
               \<and> row0 E response_table ''rows_affected'' = Inr a
               \<and> map_of d ''success'' = Some s \<and> map_of d ''rows_affected'' = Some a)"
  proof (intro allI impI)
    fix d assume "r = Inr d"
    then have "extract_result E el response_table = Inr d"
      using r by (auto split: sum.splits)
    from extract_result_Inr[OF this] show "\<exists>s a. row0 E response_table ''success'' = Inr s
               \<and> row0 E response_table ''rows_affected'' = Inr a
               \<and> map_of d ''success'' = Some s \<and> map_of d ''rows_affected'' = Some a"
      by auto
  qed
  have p2: "(\<forall>d. r = Inr d \<longrightarrow> map_of d ''method_used'' = Some PyNone)
               \<and> (\<forall>s a. row0 E response_table ''success'' = Inr s
                      \<and> row0 E response_table ''rows_affected'' = Inr a
                      \<and> format_thousands E a = None
                    \<longrightarrow> (\<exists>d. r = Inr d \<and> map_of d ''success'' = Some s
                           \<and> map_of d ''rows_affected'' = Some a
                           \<and> map_of d ''method_used'' = Some PyNone))"
    if m: "''method_used'' \<notin> set (schema_names response_table)"
  proof (intro conjI allI impI)
    fix d assume "r = Inr d"
    then have "extract_result E el response_table = Inr d"
      using r by (auto split: sum.splits)
    then show "map_of d ''method_used'' = Some PyNone"
      using m by (auto simp: extract_result_def split: sum.splits option.splits)
  next
    fix s a
    assume h: "row0 E response_table ''success'' = Inr s
                 \<and> row0 E response_table ''rows_affected'' = Inr a
                 \<and> format_thousands E a = None"
    have "extract_result E el response_table
            = Inr [(''success'', s), (''rows_affected'', a),
                   (''execution_time_ms'', PyFloat el), (''method_used'', PyNone)]"
      using extract_result_no_method_used[OF m] h by blast
    then show "\<exists>d. r = Inr d \<and> map_of d ''success'' = Some s
                 \<and> map_of d ''rows_affected'' = Some a
                 \<and> map_of d ''method_used'' = Some PyNone"
      using r by simp
  qed
  show ?thesis using p1 p2 by blast
qed

theorem action_result_fields_witness:
  "\<exists>d. fst (update (env_of None None (Inr [''R'', ''1''])) client_connected [] batch1 ''t'')
         = Inr d
       \<and> map_of d ''success'' = Some (PyBool True)
       \<and> map_of d ''rows_affected'' = Some (PyInt 1)
       \<and> map_of d ''method_used'' = Some PyNone"
proof -
  let ?E = "env_of None None (Inr [''R'', ''1''])"
  let ?r = "fst (update ?E client_connected [] batch1 ''t'')"
  have a1: "is_connected client_connected" by code_simp
  have a2: "''update'' = ''update'' \<or> ''update'' = ''delete''" by simp
  have a3: "do_action ?E [] ''update'' (action_body ?E batch1 ''t'') = Inr [''R'', ''1'']"
    by (simp add: env_of_def)
  have a4: "ipc_read ?E (concat [''R'', ''1'']) = Inr response1" by code_simp
  have a5: "?r = (if ''update'' = ''update''
                  then fst (update ?E client_connected [] batch1 ''t'')
                  else fst (delete ?E client_connected [] batch1 ''t''))" by simp
  have m: "''method_used'' \<notin> set (schema_names response1)" by code_simp
  have s: "row0 ?E response1 ''success'' = Inr (PyBool True)
           \<and> row0 ?E response1 ''rows_affected'' = Inr (PyInt 1)
           \<and> format_thousands ?E (PyInt 1) = None"
    by code_simp
  from action_result_fields[OF a1 a2 a3 a4 a5] m s show ?thesis by blast
qed

section \<open>Transport calls of one operation\<close>

lemma insert_op_new_events:
  "new_events h (snd (insert_op E c h t n))
     = (case priv_ensure_connected c of
          Some e \<Rightarrow> []
        | None \<Rightarrow> [(Do_put n (schema_names t), raised (do_put E h n (schema_names t)))])"
  by (simp add: insert_op_def Let_def split: option.splits sum.splits)

lemma insert_op_raises:
  "priv_ensure_connected c = None \<Longrightarrow> do_put E h n (schema_names t) = Inl e \<Longrightarrow>
     isl (fst (insert_op E c h t n))"
  by (simp add: insert_op_def Let_def)

lemma select_new_events:
  "new_events h (snd (select E c h q))
     = (case priv_ensure_connected c of
          Some e \<Rightarrow> []
        | None \<Rightarrow> [(Do_get q, raised (do_get E h q))])"
  by (simp add: select_def Let_def split: option.splits sum.splits)

lemma select_raises:
  "priv_ensure_connected c = None \<Longrightarrow> do_get E h q = Inl e \<Longrightarrow> isl (fst (select E c h q))"
  by (simp add: select_def Let_def)

lemma select_streaming_new_events:
  "new_events h (snd (snd (select_streaming E c h q)))
     = (case priv_ensure_connected c of
          Some e \<Rightarrow> []
        | None \<Rightarrow> [(Do_get q, raised (do_get E h q))])"
  by (simp add: select_streaming_def Let_def split: option.splits sum.splits)

lemma select_streaming_raises:
  "priv_ensure_connected c = None \<Longrightarrow> do_get E h q = Inl e \<Longrightarrow>
     fst (snd (select_streaming E c h q)) \<noteq> None"
  by (simp add: select_streaming_def Let_def)

lemma update_new_events_gen:
  "new_events h (snd (update E c h t n))
     = (case priv_ensure_connected c of
          Some e \<Rightarrow> []
        | None \<Rightarrow> [(Do_action ''update'' (action_body E t n),
                    raised (do_action E h ''update'' (action_body E t n)))])"
  by (simp add: update_def Let_def split: option.splits sum.splits)

lemma update_raises:
  "priv_ensure_connected c = None \<Longrightarrow> do_action E h ''update'' (action_body E t n) = Inl e
     \<Longrightarrow> isl (fst (update E c h t n))"
  by (simp add: update_def Let_def)

lemma delete_new_events_gen:
  "new_events h (snd (delete E c h t n))
     = (case priv_ensure_connected c of
          Some e \<Rightarrow> []
        | None \<Rightarrow> [(Do_action ''delete'' (action_body E t n),
                    raised (do_action E h ''delete'' (action_body E t n)))])"
  by (simp add: delete_def Let_def split: option.splits sum.splits)

lemma delete_raises:
  "priv_ensure_connected c = None \<Longrightarrow> do_action E h ''delete'' (action_body E t n) = Inl e
     \<Longrightarrow> isl (fst (delete E c h t n))"
  by (simp add: delete_def Let_def)

lemma raised_Some: "raised r = Some e \<longleftrightarrow> r = Inl e"
  by (cases r) (simp_all add: raised_def)

lemma one_call_fail_fast:
  "each_at_most_once [ev] \<and> each_at_most_once [] \<and> \<not> has_failure []
   \<and> (has_failure [ev] \<longleftrightarrow> snd ev \<noteq> None)"
  by (simp add: each_at_most_once_def has_failure_def)


lemma insert_op_fail_fast:
  "each_at_most_once (new_events h (snd (insert_op E c h t n)))
   \<and> no_call_after_failure (new_events h (snd (insert_op E c h t n)))
   \<and> (has_failure (new_events h (snd (insert_op E c h t n)))
        \<longrightarrow> isl (fst (insert_op E c h t n)))"
proof (cases "priv_ensure_connected c")
  case None
  then show ?thesis
    using insert_op_raises[OF None, of E h n t]
    by (auto simp: insert_op_new_events one_call_fail_fast raised_Some)
next
  case (Some e)
  then show ?thesis by (simp add: insert_op_new_events one_call_fail_fast)
qed

lemma select_fail_fast:
  "each_at_most_once (new_events h (snd (select E c h q)))
   \<and> no_call_after_failure (new_events h (snd (select E c h q)))
   \<and> (has_failure (new_events h (snd (select E c h q))) \<longrightarrow> isl (fst (select E c h q)))"
proof (cases "priv_ensure_connected c")
  case None
  then show ?thesis
    using select_raises[OF None, of E h q]
    by (auto simp: select_new_events one_call_fail_fast raised_Some)
next
  case (Some e)
  then show ?thesis by (simp add: select_new_events one_call_fail_fast)
qed

lemma select_streaming_fail_fast:
  "each_at_most_once (new_events h (snd (snd (select_streaming E c h q))))
   \<and> no_call_after_failure (new_events h (snd (snd (select_streaming E c h q))))
   \<and> (has_failure (new_events h (snd (snd (select_streaming E c h q))))
        \<longrightarrow> fst (snd (select_streaming E c h q)) \<noteq> None)"
proof (cases "priv_ensure_connected c")
  case None
  then show ?thesis
    using select_streaming_raises[OF None, of E h q]
    by (auto simp: select_streaming_new_events one_call_fail_fast raised_Some)
next
  case (Some e)
  then show ?thesis by (simp add: select_streaming_new_events one_call_fail_fast)
qed

lemma update_fail_fast:
  "each_at_most_once (new_events h (snd (update E c h t n)))
   \<and> no_call_after_failure (new_events h (snd (update E c h t n)))
   \<and> (has_failure (new_events h (snd (update E c h t n))) \<longrightarrow> isl (fst (update E c h t n)))"
proof (cases "priv_ensure_connected c")
  case None
  then show ?thesis
    using update_raises[OF None, of E h t n]
    by (auto simp: update_new_events_gen one_call_fail_fast raised_Some)
next
  case (Some e)
  then show ?thesis by (simp add: update_new_events_gen one_call_fail_fast)
qed

lemma delete_fail_fast:
  "each_at_most_once (new_events h (snd (delete E c h t n)))
   \<and> no_call_after_failure (new_events h (snd (delete E c h t n)))
   \<and> (has_failure (new_events h (snd (delete E c h t n))) \<longrightarrow> isl (fst (delete E c h t n)))"
proof (cases "priv_ensure_connected c")
  case None
  then show ?thesis
    using delete_raises[OF None, of E h t n]
    by (auto simp: delete_new_events_gen one_call_fail_fast raised_Some)
next
  case (Some e)
  then show ?thesis by (simp add: delete_new_events_gen one_call_fail_fast)
qed

lemma connect_cases:
  "connect E c h =
     (let loc = server_location (config c);
          name = client_name (config c); key = api_key (config c);
          c1 = c\<lparr>priv_client := Some (FlightClient loc)\<rparr>;
          c2 = c1\<lparr>priv_connected := True\<rparr>;
          h0 = h @ [(New_FlightClient loc, None)]
      in case new_FlightClient E h loc of
           Some e \<Rightarrow> (Inl (connect_error (config c) e), c, h @ [(New_FlightClient loc, Some e)])
         | None \<Rightarrow>
             if \<not> has_credential (config c) then (Inr True, c2, h0)
             else (case list_actions E h0 of
                     None \<Rightarrow> (Inr True, c2, h0 @ [(List_actions, None)])
                   | Some e \<Rightarrow>
                       if auth_class e then
                         (case authenticate_basic_token E (h0 @ [(List_actions, Some e)])
                                 name key of
                            None \<Rightarrow>
                              (Inr True, c2,
                               h0 @ [(List_actions, Some e),
                                     (Authenticate_basic_token name key, None)])
                          | Some e' \<Rightarrow>
                              (Inl (connect_error (config c) (auth_error (config c) e')), c1,
                               h0 @ [(List_actions, Some e),
                                     (Authenticate_basic_token name key, Some e')]))
                       else if auth_disabled_class e then
                         (Inr True, c2, h0 @ [(List_actions, Some e)])
                       else (Inl (connect_error (config c) e), c1,
                             h0 @ [(List_actions, Some e)])))"
  by (simp add: connect_def connect_try_def priv_authenticate_with_handle Let_def
      split: option.splits)

lemma connect_fail_fast:
  "each_at_most_once (new_events h (snd (snd (connect E c h))))
   \<and> ((\<forall>e. (List_actions, Some e) \<in> set (new_events h (snd (snd (connect E c h))))
            \<longrightarrow> \<not> auth_class e \<and> \<not> auth_disabled_class e)
        \<longrightarrow> no_call_after_failure (new_events h (snd (snd (connect E c h))))
            \<and> (has_failure (new_events h (snd (snd (connect E c h))))
                 \<longrightarrow> isl (fst (connect E c h))))
   \<and> (\<forall>e. (List_actions, Some e) \<in> set (new_events h (snd (snd (connect E c h))))
            \<and> auth_class e
        \<longrightarrow> (\<exists>x. new_events h (snd (snd (connect E c h)))
                    = [(New_FlightClient (server_location (config c)), None),
                       (List_actions, Some e),
                       (Authenticate_basic_token (client_name (config c))
                          (api_key (config c)), x)]
                 \<and> (x \<noteq> None \<longrightarrow> isl (fst (connect E c h)))))
   \<and> (\<forall>e. (List_actions, Some e) \<in> set (new_events h (snd (snd (connect E c h))))
            \<and> \<not> auth_class e \<and> auth_disabled_class e
        \<longrightarrow> new_events h (snd (snd (connect E c h)))
              = [(New_FlightClient (server_location (config c)), None),
                 (List_actions, Some e)]
            \<and> fst (connect E c h) = Inr True)"
  (is "?P (connect E c h)")
proof -
  let ?loc = "server_location (config c)"
  let ?h0 = "h @ [(New_FlightClient ?loc, None)]"
  consider
      (A) e0 where "new_FlightClient E h ?loc = Some e0"
    | (B) "new_FlightClient E h ?loc = None" "\<not> has_credential (config c)"
    | (C) "new_FlightClient E h ?loc = None" "has_credential (config c)"
          "list_actions E ?h0 = None"
    | (D) e where "new_FlightClient E h ?loc = None" "has_credential (config c)"
          "list_actions E ?h0 = Some e" "auth_class e"
    | (E) e where "new_FlightClient E h ?loc = None" "has_credential (config c)"
          "list_actions E ?h0 = Some e" "\<not> auth_class e" "auth_disabled_class e"
    | (F) e where "new_FlightClient E h ?loc = None" "has_credential (config c)"
          "list_actions E ?h0 = Some e" "\<not> auth_class e" "\<not> auth_disabled_class e"
    by (cases "new_FlightClient E h ?loc"; cases "list_actions E ?h0") auto
  then show ?thesis
  proof cases
    case A
    then show ?thesis
      by (simp add: connect_cases Let_def each_at_most_once_def has_failure_def)
  next
    case B
    then show ?thesis
      by (simp add: connect_cases Let_def each_at_most_once_def has_failure_def)
  next
    case C
    then show ?thesis
      by (simp add: connect_cases Let_def each_at_most_once_def has_failure_def)
  next
    case D
    then show ?thesis
      by (cases "authenticate_basic_token E (?h0 @ [(List_actions, Some e)])
                   (client_name (config c)) (api_key (config c))")
         (simp_all add: connect_cases Let_def each_at_most_once_def has_failure_def)
  next
    case E
    then show ?thesis
      by (simp add: connect_cases Let_def each_at_most_once_def has_failure_def)
  next
    case F
    then show ?thesis
      by (simp add: connect_cases Let_def each_at_most_once_def has_failure_def)
  qed
qed

text \<open>
  Claim C9 says that after any failed transport call the operation raises at once and
  makes no further transport call. \<^verbatim>\<open>connect\<close> is built otherwise: when the probe fails
  with \<open>unauthenticated\<close> it goes on to \<^verbatim>\<open>authenticate_basic_token\<close> and returns
  \<^verbatim>\<open>True\<close>; and when the probe fails with a text that contains \<open>unimplemented\<close> and
  \<open>authentication\<close> it returns \<^verbatim>\<open>True\<close> although a call has failed.
\<close>

theorem connect_call_after_failure_counterexample:
  "new_events []
     (snd (snd (connect (env_of (Some (OtherError ''unauthenticated'')) None (Inr []))
                  (A2FlightClient cfg_key) [])))
     = [(New_FlightClient ''grpc://localhost:50054'', None),
        (List_actions, Some (OtherError ''unauthenticated'')),
        (Authenticate_basic_token ''etl'' ''a2db_key_0123456789abcdef0123456789'', None)]
   \<and> \<not> no_call_after_failure
         (new_events []
            (snd (snd (connect (env_of (Some (OtherError ''unauthenticated'')) None (Inr []))
                         (A2FlightClient cfg_key) []))))
   \<and> fst (connect (env_of (Some (OtherError ''unauthenticated'')) None (Inr []))
            (A2FlightClient cfg_key) []) = Inr True
   \<and> has_failure
        (new_events []
           (snd (snd (connect
              (env_of (Some (OtherError ''unimplemented: no authentication'')) None (Inr []))
              (A2FlightClient cfg_key) []))))
   \<and> \<not> isl (fst (connect
              (env_of (Some (OtherError ''unimplemented: no authentication'')) None (Inr []))
              (A2FlightClient cfg_key) []))"
  by code_simp

text \<open>
  Claim C9, amended. In one call of \<^verbatim>\<open>insert\<close>, \<^verbatim>\<open>select\<close>, \<^verbatim>\<open>select_streaming\<close>,
  \<^verbatim>\<open>update\<close>, \<^verbatim>\<open>delete\<close> or \<^verbatim>\<open>connect\<close> no transport primitive is called twice.
  In the five data operations a failed transport call is the last one and the operation
  raises. The same holds for \<^verbatim>\<open>connect\<close> unless the probe \<^verbatim>\<open>list_actions\<close> fails with
  an error of the authentication class or of the authentication-disabled class: in the
  first case exactly one \<^verbatim>\<open>authenticate_basic_token\<close> call follows, and \<^verbatim>\<open>connect\<close>
  raises if that call fails; in the second case no call follows and \<^verbatim>\<open>connect\<close>
  returns \<^verbatim>\<open>True\<close>.
\<close>

theorem transport_calls_at_most_once:
  "(each_at_most_once (new_events h (snd (insert_op E c h arrow_table table_name)))
     \<and> no_call_after_failure (new_events h (snd (insert_op E c h arrow_table table_name)))
     \<and> (has_failure (new_events h (snd (insert_op E c h arrow_table table_name)))
          \<longrightarrow> isl (fst (insert_op E c h arrow_table table_name))))
   \<and> (each_at_most_once (new_events h (snd (select E c h query)))
     \<and> no_call_after_failure (new_events h (snd (select E c h query)))
     \<and> (has_failure (new_events h (snd (select E c h query)))
          \<longrightarrow> isl (fst (select E c h query))))
   \<and> (each_at_most_once (new_events h (snd (snd (select_streaming E c h query))))
     \<and> no_call_after_failure (new_events h (snd (snd (select_streaming E c h query))))
     \<and> (has_failure (new_events h (snd (snd (select_streaming E c h query))))
          \<longrightarrow> fst (snd (select_streaming E c h query)) \<noteq> None))
   \<and> (each_at_most_once (new_events h (snd (update E c h arrow_table table_name)))
     \<and> no_call_after_failure (new_events h (snd (update E c h arrow_table table_name)))
     \<and> (has_failure (new_events h (snd (update E c h arrow_table table_name)))
          \<longrightarrow> isl (fst (update E c h arrow_table table_name))))
   \<and> (each_at_most_once (new_events h (snd (delete E c h arrow_table table_name)))
     \<and> no_call_after_failure (new_events h (snd (delete E c h arrow_table table_name)))
     \<and> (has_failure (new_events h (snd (delete E c h arrow_table table_name)))
          \<longrightarrow> isl (fst (delete E c h arrow_table table_name))))
   \<and> (each_at_most_once (new_events h (snd (snd (connect E c h))))
     \<and> ((\<forall>e. (List_actions, Some e) \<in> set (new_events h (snd (snd (connect E c h))))
            \<longrightarrow> \<not> auth_class e \<and> \<not> auth_disabled_class e)
        \<longrightarrow> no_call_after_failure (new_events h (snd (snd (connect E c h))))
            \<and> (has_failure (new_events h (snd (snd (connect E c h))))
                 \<longrightarrow> isl (fst (connect E c h))))
     \<and> (\<forall>e. (List_actions, Some e) \<in> set (new_events h (snd (snd (connect E c h))))
            \<and> auth_class e
        \<longrightarrow> (\<exists>x. new_events h (snd (snd (connect E c h)))
                    = [(New_FlightClient (server_location (config c)), None),
                       (List_actions, Some e),
                       (Authenticate_basic_token (client_name (config c))
                          (api_key (config c)), x)]
                 \<and> (x \<noteq> None \<longrightarrow> isl (fst (connect E c h)))))
     \<and> (\<forall>e. (List_actions, Some e) \<in> set (new_events h (snd (snd (connect E c h))))
            \<and> \<not> auth_class e \<and> auth_disabled_class e
        \<longrightarrow> new_events h (snd (snd (connect E c h)))
              = [(New_FlightClient (server_location (config c)), None),
                 (List_actions, Some e)]
            \<and> fst (connect E c h) = Inr True))"
  by (intro conjI[OF insert_op_fail_fast] conjI[OF select_fail_fast]
      conjI[OF select_streaming_fail_fast] conjI[OF update_fail_fast]
      conjI[OF delete_fail_fast] connect_fail_fast)

theorem transport_calls_at_most_once_witness:
  "isl (fst (update env_unreachable client_connected [] batch1 ''t''))
   \<and> isl (fst (connect (env_of (Some (OtherError ''unauthenticated''))
                     (Some (OtherError ''invalid api key'')) (Inr []))
               (A2FlightClient cfg_key) []))
   \<and> no_call_after_failure
        (new_events [] (snd (snd (connect env_unreachable (A2FlightClient cfg_key) []))))"
proof -
  let ?E = "env_of (Some (OtherError ''unauthenticated''))
              (Some (OtherError ''invalid api key'')) (Inr [])"
  let ?c = "A2FlightClient cfg_key"
  let ?N = "new_events [] (snd (snd (connect ?E ?c [])))"
  have u: "has_failure (new_events [] (snd (update env_unreachable client_connected []
                                              batch1 ''t'')))"
    by code_simp
  have m: "(List_actions, Some (OtherError ''unauthenticated'')) \<in> set ?N"
    by code_simp
  have a: "auth_class (OtherError ''unauthenticated'')" by code_simp
  have n: "?N = [(New_FlightClient (server_location (config ?c)), None),
                 (List_actions, Some (OtherError ''unauthenticated'')),
                 (Authenticate_basic_token (client_name (config ?c)) (api_key (config ?c)),
                  Some (OtherError ''invalid api key''))]"
    by code_simp
  have o: "\<forall>e. (List_actions, Some e)
              \<in> set (new_events [] (snd (snd (connect env_unreachable ?c []))))
            \<longrightarrow> \<not> auth_class e \<and> \<not> auth_disabled_class e"
  proof -
    have "new_events [] (snd (snd (connect env_unreachable ?c [])))
            = [(New_FlightClient ''grpc://localhost:50054'', None),
               (List_actions, Some (OtherError ''failed to connect to all addresses''))]"
      by code_simp
    moreover have "\<not> auth_class (OtherError ''failed to connect to all addresses'')
        \<and> \<not> auth_disabled_class (OtherError ''failed to connect to all addresses'')"
      by code_simp
    ultimately show ?thesis by simp
  qed
  have t1: "isl (fst (update env_unreachable client_connected [] batch1 ''t''))"
    using transport_calls_at_most_once[of "[]" env_unreachable client_connected batch1 "''t''"]
      u by blast
  have t2: "isl (fst (connect ?E ?c []))"
    using transport_calls_at_most_once[of "[]" ?E ?c] m a n
    by (metis list.inject prod.inject option.distinct(1))
  have t3: "no_call_after_failure
        (new_events [] (snd (snd (connect env_unreachable ?c []))))"
    using transport_calls_at_most_once[of "[]" env_unreachable ?c] o by blast
  show ?thesis using t1 t2 t3 by simp
qed

section \<open>The module-level client: one shared connection\<close>

lemma connect_returns_connected:
  "connect E c h = (Inr b, c', h') \<Longrightarrow> is_connected c'"
  by (auto simp: connect_cases Let_def is_connected_def split: option.splits if_splits)

lemma new_global_client_result:
  "new_global_client E g h = (Inr c, g', h') \<Longrightarrow> g' = Some c \<and> is_connected c"
  by (auto simp: new_global_client_def split: sum.splits prod.splits
      dest: connect_returns_connected)

lemma get_global_client_result:
  "priv_get_global_client E g h = (Inr c, g', h') \<Longrightarrow> g' = Some c \<and> is_connected c"
  by (auto simp: priv_get_global_client_def split: option.splits if_splits
      dest: new_global_client_result)

lemma close_disconnects: "\<not> is_connected (fst (close E c h))"
  by (simp add: close_def is_connected_def split: option.splits)

text \<open>
  Claim C8. The module holds one optional client. \<^verbatim>\<open>_get_global_client\<close> returns the
  stored client unchanged, without a transport call, when it reports connected. When
  there is none, or the stored one reports disconnected, the configuration is loaded, a
  new client is constructed and stored in place of the previous one, and
  \<^verbatim>\<open>connect\<close> is called on it: its error is raised, or the new client is returned and
  is connected. Each of \<^verbatim>\<open>a2db_ins\<close>, \<^verbatim>\<open>a2db_sel\<close>, \<^verbatim>\<open>a2db_updt\<close> and
  \<^verbatim>\<open>a2db_del\<close> raises the error of \<^verbatim>\<open>_get_global_client\<close>, or calls the operation on
  the client it returned, which is the stored one and is connected. \<^verbatim>\<open>a2db_close\<close>
  closes the stored client, which is disconnected afterwards, and clears the variable.
\<close>

theorem global_client_single_connection:
  "(\<forall>c. g = Some c \<and> is_connected c
        \<longrightarrow> priv_get_global_client E g h = (Inr c, Some c, h))
   \<and> (g = None \<or> (\<exists>c. g = Some c \<and> \<not> is_connected c)
        \<longrightarrow> (case get_flight_client_config E of
               Inl e \<Rightarrow> priv_get_global_client E g h = (Inl e, g, h)
             | Inr cfg \<Rightarrow>
                 (case connect E (A2FlightClient cfg) h of
                    (Inl e, c', h') \<Rightarrow>
                      priv_get_global_client E g h = (Inl e, Some c', h')
                  | (Inr b, c', h') \<Rightarrow>
                      priv_get_global_client E g h = (Inr c', Some c', h')
                      \<and> is_connected c')))
   \<and> (\<forall>c g' h'. priv_get_global_client E g h = (Inr c, g', h')
        \<longrightarrow> g' = Some c \<and> is_connected c
            \<and> a2db_ins E g h arrow_table table_name
                = (fst (insert_op E c h' arrow_table table_name), Some c,
                   snd (insert_op E c h' arrow_table table_name))
            \<and> a2db_sel E g h query
                = (fst (select E c h' query), Some c, snd (select E c h' query))
            \<and> a2db_updt E g h arrow_table table_name
                = (fst (update E c h' arrow_table table_name), Some c,
                   snd (update E c h' arrow_table table_name))
            \<and> a2db_del E g h arrow_table table_name
                = (fst (delete E c h' arrow_table table_name), Some c,
                   snd (delete E c h' arrow_table table_name)))
   \<and> (\<forall>e g' h'. priv_get_global_client E g h = (Inl e, g', h')
        \<longrightarrow> a2db_ins E g h arrow_table table_name = (Inl e, g', h')
            \<and> a2db_sel E g h query = (Inl e, g', h')
            \<and> a2db_updt E g h arrow_table table_name = (Inl e, g', h')
            \<and> a2db_del E g h arrow_table table_name = (Inl e, g', h'))
   \<and> a2db_close E g h = (None, (case g of None \<Rightarrow> h | Some c \<Rightarrow> snd (close E c h)))
   \<and> (\<forall>c. g = Some c \<longrightarrow> \<not> is_connected (fst (close E c h)))"
proof -
  have p1: "\<forall>c. g = Some c \<and> is_connected c
        \<longrightarrow> priv_get_global_client E g h = (Inr c, Some c, h)"
    by (simp add: priv_get_global_client_def)
  have n: "g = None \<or> (\<exists>c. g = Some c \<and> \<not> is_connected c)
        \<Longrightarrow> priv_get_global_client E g h = new_global_client E g h"
    by (auto simp: priv_get_global_client_def)
  have p2: "g = None \<or> (\<exists>c. g = Some c \<and> \<not> is_connected c)
        \<longrightarrow> (case get_flight_client_config E of
               Inl e \<Rightarrow> priv_get_global_client E g h = (Inl e, g, h)
             | Inr cfg \<Rightarrow>
                 (case connect E (A2FlightClient cfg) h of
                    (Inl e, c', h') \<Rightarrow>
                      priv_get_global_client E g h = (Inl e, Some c', h')
                  | (Inr b, c', h') \<Rightarrow>
                      priv_get_global_client E g h = (Inr c', Some c', h')
                      \<and> is_connected c'))"
  proof
    assume a: "g = None \<or> (\<exists>c. g = Some c \<and> \<not> is_connected c)"
    show "case get_flight_client_config E of
               Inl e \<Rightarrow> priv_get_global_client E g h = (Inl e, g, h)
             | Inr cfg \<Rightarrow>
                 (case connect E (A2FlightClient cfg) h of
                    (Inl e, c', h') \<Rightarrow>
                      priv_get_global_client E g h = (Inl e, Some c', h')
                  | (Inr b, c', h') \<Rightarrow>
                      priv_get_global_client E g h = (Inr c', Some c', h')
                      \<and> is_connected c')"
      unfolding n[OF a]
      by (auto simp: new_global_client_def split: sum.splits prod.splits
          dest: connect_returns_connected)
  qed
  have p3: "\<forall>c g' h'. priv_get_global_client E g h = (Inr c, g', h')
        \<longrightarrow> g' = Some c \<and> is_connected c
            \<and> a2db_ins E g h arrow_table table_name
                = (fst (insert_op E c h' arrow_table table_name), Some c,
                   snd (insert_op E c h' arrow_table table_name))
            \<and> a2db_sel E g h query
                = (fst (select E c h' query), Some c, snd (select E c h' query))
            \<and> a2db_updt E g h arrow_table table_name
                = (fst (update E c h' arrow_table table_name), Some c,
                   snd (update E c h' arrow_table table_name))
            \<and> a2db_del E g h arrow_table table_name
                = (fst (delete E c h' arrow_table table_name), Some c,
                   snd (delete E c h' arrow_table table_name))"
  proof (intro allI impI)
    fix c g' h' assume a: "priv_get_global_client E g h = (Inr c, g', h')"
    from get_global_client_result[OF a] have b: "g' = Some c" "is_connected c" by simp_all
    show "g' = Some c \<and> is_connected c
            \<and> a2db_ins E g h arrow_table table_name
                = (fst (insert_op E c h' arrow_table table_name), Some c,
                   snd (insert_op E c h' arrow_table table_name))
            \<and> a2db_sel E g h query
                = (fst (select E c h' query), Some c, snd (select E c h' query))
            \<and> a2db_updt E g h arrow_table table_name
                = (fst (update E c h' arrow_table table_name), Some c,
                   snd (update E c h' arrow_table table_name))
            \<and> a2db_del E g h arrow_table table_name
                = (fst (delete E c h' arrow_table table_name), Some c,
                   snd (delete E c h' arrow_table table_name))"
      using a b
      by (simp add: a2db_ins_def a2db_sel_def a2db_updt_def a2db_del_def split: prod.splits)
  qed
  have p4: "\<forall>e g' h'. priv_get_global_client E g h = (Inl e, g', h')
        \<longrightarrow> a2db_ins E g h arrow_table table_name = (Inl e, g', h')
            \<and> a2db_sel E g h query = (Inl e, g', h')
            \<and> a2db_updt E g h arrow_table table_name = (Inl e, g', h')
            \<and> a2db_del E g h arrow_table table_name = (Inl e, g', h')"
    by (simp add: a2db_ins_def a2db_sel_def a2db_updt_def a2db_del_def)
  have p5: "a2db_close E g h
              = (None, (case g of None \<Rightarrow> h | Some c \<Rightarrow> snd (close E c h)))"
    by (simp add: a2db_close_def split: option.splits prod.splits)
  have p6: "\<forall>c. g = Some c \<longrightarrow> \<not> is_connected (fst (close E c h))"
    by (simp add: close_disconnects)
  show ?thesis using p1 p2 p3 p4 p5 p6 by blast
qed

theorem global_client_single_connection_witness:
  "fst (snd (a2db_updt (env_of (Some (OtherError ''unauthenticated'')) None (Inr [''R1'']))
               None [] batch1 ''t'')) = Some client_connected
   \<and> is_connected client_connected
   \<and> priv_get_global_client (env_of (Some (OtherError ''unauthenticated'')) None (Inr [''R1'']))
        (Some client_connected) [] = (Inr client_connected, Some client_connected, [])
   \<and> a2db_close (env_of (Some (OtherError ''unauthenticated'')) None (Inr [''R1'']))
        (Some client_connected) [] = (None, [(Close, None)])"
proof -
  let ?E = "env_of (Some (OtherError ''unauthenticated'')) None (Inr [''R1''])"
  let ?H = "[(New_FlightClient ''grpc://localhost:50054'', None),
             (List_actions, Some (OtherError ''unauthenticated'')),
             (Authenticate_basic_token ''etl'' ''a2db_key_0123456789abcdef0123456789'',
              None)]"
  have g1: "priv_get_global_client ?E None [] = (Inr client_connected, Some client_connected, ?H)"
    by code_simp
  have c1: "is_connected client_connected" by code_simp
  have cl: "snd (close ?E client_connected []) = [(Close, None)]" by code_simp
  note T1 = global_client_single_connection[of None ?E "[]" batch1 "''t''" "''q''"]
  note T2 = global_client_single_connection[of "Some client_connected" ?E "[]"]
  have "a2db_updt ?E None [] batch1 ''t''
          = (fst (update ?E client_connected ?H batch1 ''t''), Some client_connected,
             snd (update ?E client_connected ?H batch1 ''t''))"
    by (rule T1[THEN conjunct2, THEN conjunct2, THEN conjunct1, rule_format, OF g1,
          THEN conjunct2, THEN conjunct2, THEN conjunct2, THEN conjunct2, THEN conjunct1])
  then have t1: "fst (snd (a2db_updt ?E None [] batch1 ''t'')) = Some client_connected"
    by (simp only: fst_conv snd_conv)
  have t2: "priv_get_global_client ?E (Some client_connected) []
              = (Inr client_connected, Some client_connected, [])"
    by (rule T2[THEN conjunct1, rule_format]) (simp only: c1 simp_thms)
  have "a2db_close ?E (Some client_connected) []
          = (None, case Some client_connected of None \<Rightarrow> []
                   | Some c \<Rightarrow> snd (close ?E c []))"
    by (rule T2[THEN conjunct2, THEN conjunct2, THEN conjunct2, THEN conjunct2,
          THEN conjunct1])
  then have t3: "a2db_close ?E (Some client_connected) [] = (None, [(Close, None)])"
    by (simp only: option.case cl)
  show ?thesis using t1 t2 t3 c1 by (intro conjI)
qed

end
